theory Spec2Isabelle
  imports Complex_Main
begin

section \<open>Time\<close>

text \<open>
  A Python \<open>datetime\<close> is modelled as an \<open>instant\<close>: the number of microseconds
  (the resolution of \<open>datetime\<close>) on the local time line of \<open>TIMEZONE\<close>
  (Europe/Istanbul, a fixed UTC+3 offset), counted from a local midnight. Every
  \<open>localize\<close>/\<open>astimezone(TIMEZONE)\<close> call of the source is then the identity.
  A \<open>timedelta\<close> is a difference of instants. Python's float results
  (\<open>total_seconds()\<close>, \<open>/\<close>) are modelled as exact rationals.
\<close>

type_synonym instant = int
type_synonym date = int
type_synonym time_of_day = int

abbreviation SECOND :: int where "SECOND \<equiv> 1000000"
abbreviation MINUTE :: int where "MINUTE \<equiv> 60000000"
abbreviation HOUR :: int where "HOUR \<equiv> 3600000000"
abbreviation DAY :: int where "DAY \<equiv> 86400000000"

definition total_seconds :: "int \<Rightarrow> rat" where
  "total_seconds d = of_int d / 1000000"

definition date_of :: "instant \<Rightarrow> date" where
  "date_of t = t div DAY"

definition combine :: "date \<Rightarrow> time_of_day \<Rightarrow> instant" where
  "combine d t = d * DAY + t"

definition hm :: "int \<Rightarrow> int \<Rightarrow> time_of_day" where
  "hm h m = h * HOUR + m * MINUTE"

definition floor_hour :: "instant \<Rightarrow> instant" where
  "floor_hour t = t - t mod HOUR"

section \<open>Shift breaks (database.py)\<close>

datatype break_id = Brk_a | Brk_b | Brk_c | Brk_d | Brk_e | Brk_f | Brk_g | Brk_h | Brk_i

fun SHIFT_BREAKS :: "break_id \<Rightarrow> time_of_day \<times> time_of_day" where
  "SHIFT_BREAKS Brk_a = (hm 10 0, hm 10 15)"
| "SHIFT_BREAKS Brk_b = (hm 12 0, hm 12 30)"
| "SHIFT_BREAKS Brk_c = (hm 16 0, hm 16 15)"
| "SHIFT_BREAKS Brk_d = (hm 18 0, hm 18 30)"
| "SHIFT_BREAKS Brk_e = (hm 20 0, hm 20 30)"
| "SHIFT_BREAKS Brk_f = (hm 22 0, hm 22 15)"
| "SHIFT_BREAKS Brk_g = (hm 0 0, hm 0 30)"
| "SHIFT_BREAKS Brk_h = (hm 3 0, hm 3 15)"
| "SHIFT_BREAKS Brk_i = (hm 5 0, hm 5 30)"

definition WORKING_MODE_BREAKS :: "string \<Rightarrow> break_id list option" where
  "WORKING_MODE_BREAKS working_mode =
     (if working_mode = ''mode1'' then Some [Brk_a, Brk_b, Brk_e, Brk_f, Brk_h, Brk_i]
      else if working_mode = ''mode2'' then Some [Brk_a, Brk_b, Brk_c, Brk_f, Brk_g, Brk_h, Brk_i]
      else if working_mode = ''mode3'' then
        Some [Brk_a, Brk_b, Brk_c, Brk_d, Brk_f, Brk_g, Brk_h, Brk_i]
      else None)"

text \<open>The body of the \<open>while current_date <= end_date\<close> loop, for one break on one date:
  the seconds it adds to \<open>total_break_seconds\<close>.\<close>

definition break_overlap ::
  "time_of_day \<times> time_of_day \<Rightarrow> instant \<Rightarrow> instant \<Rightarrow> date \<Rightarrow> rat" where
  "break_overlap break_info start_time end_time current_date =
     (let break_start_time = fst break_info;
          break_end_time = snd break_info;
          break_start_dt = combine current_date break_start_time;
          break_end_dt = combine current_date break_end_time;
          break_end_dt = (if break_start_time > break_end_time then break_end_dt + DAY
                          else break_end_dt);
          overlap_start = max start_time break_start_dt;
          overlap_end = min end_time break_end_dt
      in if overlap_start < overlap_end then total_seconds (overlap_end - overlap_start)
         else 0)"

function date_loop ::
  "time_of_day \<times> time_of_day \<Rightarrow> instant \<Rightarrow> instant \<Rightarrow> date \<Rightarrow> date \<Rightarrow> rat \<Rightarrow> rat" where
  "date_loop break_info start_time end_time current_date end_date total_break_seconds =
     (if current_date \<le> end_date then
        date_loop break_info start_time end_time (current_date + 1) end_date
          (total_break_seconds + break_overlap break_info start_time end_time current_date)
      else total_break_seconds)"
  by pat_completeness auto
termination
  by (relation "measure (\<lambda>(bi, s, e, cur, ed, tot). nat (ed + 1 - cur))") auto

declare date_loop.simps [simp del]

fun breaks_loop :: "break_id list \<Rightarrow> instant \<Rightarrow> instant \<Rightarrow> rat \<Rightarrow> rat" where
  "breaks_loop [] start_time end_time total_break_seconds = total_break_seconds"
| "breaks_loop (break_id # rest) start_time end_time total_break_seconds =
     breaks_loop rest start_time end_time
       (date_loop (SHIFT_BREAKS break_id) start_time end_time
          (date_of start_time) (date_of end_time) total_break_seconds)"

definition calculate_break_time :: "instant \<Rightarrow> instant \<Rightarrow> string \<Rightarrow> rat" where
  "calculate_break_time start_time end_time working_mode =
     (let working_mode = (if WORKING_MODE_BREAKS working_mode = None then ''mode1''
                          else working_mode);
          applicable_breaks = (case WORKING_MODE_BREAKS working_mode of
                                 Some bs \<Rightarrow> bs | None \<Rightarrow> [])
      in breaks_loop applicable_breaks start_time end_time 0)"

section \<open>Production data (database.py)\<close>

text \<open>
  The database is a parameter: \<open>db unit_name start final_end\<close> is what the grouped query
  returns for the unit and the bounds passed to \<open>cursor.execute\<close>, one tuple
  \<open>(Model, SuccessQty, FailQty, Target)\<close> per group, or the way the awaited call ends
  otherwise: \<open>TimeoutError\<close> when the caller's \<open>asyncio.wait_for\<close> bound of 30 seconds
  expires first, \<open>DbError\<close> for any other exception.
\<close>

datatype query_error = TimeoutError | DbError string

type_synonym row = "string \<times> int \<times> int \<times> rat option"

type_synonym database = "string \<Rightarrow> instant \<Rightarrow> instant \<Rightarrow> query_error + row list"

record model_data =
  model :: string
  success_qty :: int
  fail_qty :: int
  target :: "rat option"
  total_qty :: int
  quality :: rat
  performance :: "rat option"
  oee :: "rat option"
  theoretical_qty :: rat

text \<open>Lines 129 to 162 of \<open>get_production_data\<close>: the pair
  \<open>(final_query_end_time, actual_end_time)\<close>.\<close>

definition resolve_end_times :: "instant \<Rightarrow> instant \<Rightarrow> instant option \<Rightarrow> instant \<times> instant" where
  "resolve_end_times start_time end_time current_time =
     (let actual_end_time = (case current_time of Some now \<Rightarrow> now | None \<Rightarrow> end_time);
          actual_end_time = (if actual_end_time < start_time then start_time
                             else actual_end_time);
          query_end_time = end_time;
          final_query_end_time = query_end_time
      in case current_time of
           None \<Rightarrow> (final_query_end_time, actual_end_time)
         | Some now \<Rightarrow>
             (let time_difference = now - query_end_time;
                  five_minutes = 5 * MINUTE
              in if time_difference \<le> five_minutes then (actual_end_time, actual_end_time)
                 else (query_end_time, query_end_time)))"

text \<open>\<open>x is not None and x > 0\<close>, on a target.\<close>

definition positive_target :: "rat option \<Rightarrow> bool" where
  "positive_target t = (case t of None \<Rightarrow> False | Some v \<Rightarrow> v > 0)"

text \<open>The first loop over \<open>all_rows\<close>, with its two accumulators \<open>results\<close> and
  \<open>models_with_target\<close>.\<close>

definition make_model_data :: "rat \<Rightarrow> row \<Rightarrow> model_data" where
  "make_model_data operation_time_hours row =
     (case row of (r0, r1, r2, r3) \<Rightarrow>
        \<lparr> model = r0, success_qty = r1, fail_qty = r2, target = r3, total_qty = r1,
          quality = (if r1 + r2 > 0 then of_int r1 / of_int (r1 + r2) else 0),
          performance = None, oee = None,
          theoretical_qty = (case r3 of None \<Rightarrow> 0
                             | Some t \<Rightarrow> if t > 0 then operation_time_hours * t else 0) \<rparr>)"

fun first_pass ::
  "rat \<Rightarrow> row list \<Rightarrow> model_data list \<Rightarrow> model_data list
     \<Rightarrow> model_data list \<times> model_data list" where
  "first_pass operation_time_hours [] results models_with_target =
     (results, models_with_target)"
| "first_pass operation_time_hours (row # all_rows) results models_with_target =
     (let model_data = make_model_data operation_time_hours row
      in if positive_target (snd (snd (snd row))) then
           first_pass operation_time_hours all_rows (results @ [model_data])
             (models_with_target @ [model_data])
         else first_pass operation_time_hours all_rows (results @ [model_data])
                models_with_target)"

text \<open>The body of the loop under \<open>if models_with_target:\<close>.\<close>

definition with_target_update :: "rat \<Rightarrow> model_data \<Rightarrow> model_data" where
  "with_target_update operation_time_hours model_data =
     (case target model_data of
        None \<Rightarrow> model_data \<lparr> theoretical_qty := 0, performance := None \<rparr>
      | Some t \<Rightarrow>
          if t > 0 then
            (let individual_theoretical_qty = operation_time_hours * t
             in model_data
                  \<lparr> theoretical_qty := individual_theoretical_qty,
                    performance :=
                      (if individual_theoretical_qty > 0
                       then Some (of_int (total_qty model_data) / individual_theoretical_qty)
                       else Some 0) \<rparr>)
          else model_data \<lparr> theoretical_qty := 0, performance := None \<rparr>)"

text \<open>The body of the loop under its \<open>else:\<close>.\<close>

definition without_target_update :: "model_data \<Rightarrow> model_data" where
  "without_target_update model_data =
     (if positive_target (target model_data) then model_data \<lparr> performance := Some 0 \<rparr>
      else model_data)"

text \<open>Lines 188 to 191: the operating time of the window, in hours.\<close>

definition operation_time_hours :: "instant \<Rightarrow> instant \<Rightarrow> string \<Rightarrow> rat" where
  "operation_time_hours start_time actual_end_time working_mode =
     (let operation_time_total = total_seconds (actual_end_time - start_time);
          break_time = calculate_break_time start_time actual_end_time working_mode;
          operation_time = max (operation_time_total - break_time) 0
      in operation_time / 3600)"

definition compute_metrics :: "row list \<Rightarrow> instant \<Rightarrow> instant \<Rightarrow> string \<Rightarrow> model_data list" where
  "compute_metrics all_rows start_time actual_end_time working_mode =
     (let hours = operation_time_hours start_time actual_end_time working_mode;
          (results, models_with_target) = first_pass hours all_rows [] []
      in if models_with_target \<noteq> [] then map (with_target_update hours) results
         else map without_target_update results)"

definition get_production_data ::
  "database \<Rightarrow> string \<Rightarrow> instant \<Rightarrow> instant \<Rightarrow> instant option \<Rightarrow> string
     \<Rightarrow> query_error + model_data list" where
  "get_production_data db unit_name start_time end_time current_time working_mode =
     (let (final_query_end_time, actual_end_time) =
            resolve_end_times start_time end_time current_time
      in case db unit_name start_time final_query_end_time of
           Inl err \<Rightarrow> Inl err
         | Inr all_rows \<Rightarrow>
             Inr (compute_metrics all_rows start_time actual_end_time working_mode))"

text \<open>A database whose query returns one group, whatever the unit and the bounds:
  model \<open>M1\<close> with 80 successes, 20 failures and a target of 100 per hour.\<close>

definition one_row_db :: database where
  "one_row_db unit_name start_time final_query_end_time = Inr [(''M1'', 80, 20, Some 100)]"

text \<open>A database whose query returns two groups without a positive target: one with no
  target and one with target 0.\<close>

definition no_target_db :: database where
  "no_target_db unit_name start_time final_query_end_time =
     Inr [(''M1'', 5, 1, None), (''M2'', 3, 0, Some 0)]"

section \<open>Live or historical, as the callers decide it (main.py)\<close>

text \<open>The standard channel (lines 459 to 462) and the totals of the hourly channel
  (lines 565 to 568) compute \<open>actual_end\<close> by the same three lines.\<close>

definition summary_actual_end :: "instant \<Rightarrow> instant \<Rightarrow> instant" where
  "summary_actual_end end_time current_time =
     (let actual_end = end_time
      in if current_time - end_time \<le> 5 * MINUTE then current_time else actual_end)"

text \<open>The hourly breakdown of the hourly channel (lines 588 to 594): the pair
  \<open>(is_live_data, actual_end_for_hourly)\<close>.\<close>

definition hourly_live_end :: "instant \<Rightarrow> instant \<Rightarrow> bool \<times> instant" where
  "hourly_live_end end_time current_time =
     (let abs_diff = \<bar>total_seconds (current_time - end_time)\<bar>;
          is_live_data = (abs_diff \<le> 300)
      in (is_live_data, if is_live_data then current_time else end_time))"

text \<open>The rule in the words of the specification (section 4.2, \<open>now\<close> present): the
  effective end and whether the window is live. It is compared with the definitions
  above, which are the code.\<close>

definition spec_resolveEffectiveEnd :: "instant \<Rightarrow> instant \<Rightarrow> instant \<Rightarrow> instant \<times> bool" where
  "spec_resolveEffectiveEnd window_start window_end now =
     (let delta = now - window_end
      in if 0 \<le> delta \<and> delta \<le> 5 * MINUTE then (max window_start now, True)
         else (window_end, False))"

section \<open>Aggregations shared by the endpoints (main.py)\<close>

text \<open>\<open>sum(m['performance'] for m in data if m.get('performance') is not None)\<close>.\<close>

definition performance_sum :: "model_data list \<Rightarrow> rat" where
  "performance_sum production_data = sum_list (List.map_filter performance production_data)"

text \<open>\<open>[m for m in data if m['target'] and m['target'] > 0]\<close>.\<close>

definition models_with_target :: "model_data list \<Rightarrow> model_data list" where
  "models_with_target production_data =
     filter (\<lambda>m. positive_target (target m)) production_data"

text \<open>\<open>sum((m['total_qty'] / total_actual_qty) * m['target'] for m in models_with_target)\<close>.\<close>

definition weighted_target_rate :: "model_data list \<Rightarrow> int \<Rightarrow> rat" where
  "weighted_target_rate ms total_actual_qty =
     sum_list (map (\<lambda>m. (of_int (total_qty m) / of_int total_actual_qty) *
                          (case target m of Some t \<Rightarrow> t | None \<Rightarrow> 0)) ms)"

datatype http_error = HTTPException int string

section \<open>The multi-unit report (get\_report\_data)\<close>

record unit_summary =
  unit_total_success :: int
  unit_total_fail :: int
  unit_total_qty :: int
  unit_quality :: rat
  unit_performance_sum :: rat
  unit_models :: "model_data list"

record report_state =
  unit_data :: "string \<rightharpoonup> unit_summary"
  total_success_all :: int
  total_fail_all :: int
  weighted_quality_sum :: rat
  weighted_performance_sum :: rat
  total_production_all :: int
  total_success_weight :: int

record report_summary =
  total_success :: int
  total_fail :: int
  total_production :: int
  weighted_quality :: rat
  weighted_performance :: rat

record report =
  units :: "string \<rightharpoonup> unit_summary"
  summary :: report_summary

text \<open>What one iteration of \<open>for unit_name in unit_list\<close> does after a successful query.\<close>

definition summarize_unit :: "model_data list \<Rightarrow> unit_summary" where
  "summarize_unit production_data =
     (let unit_success = sum_list (map success_qty production_data);
          unit_fail = sum_list (map fail_qty production_data);
          unit_total = unit_success + unit_fail;
          unit_quality = (if unit_total > 0 then of_int unit_success / of_int unit_total
                          else 0)
      in \<lparr> unit_total_success = unit_success, unit_total_fail = unit_fail,
           unit_total_qty = unit_total, unit_quality = unit_quality,
           unit_performance_sum = performance_sum production_data,
           unit_models = production_data \<rparr>)"

definition accumulate_unit :: "string \<Rightarrow> unit_summary \<Rightarrow> report_state \<Rightarrow> report_state" where
  "accumulate_unit unit_name u st =
     (let st = st \<lparr> unit_data := (unit_data st)(unit_name \<mapsto> u),
                    total_success_all := total_success_all st + unit_total_success u,
                    total_fail_all := total_fail_all st + unit_total_fail u,
                    total_production_all := total_production_all st + unit_total_qty u \<rparr>;
          st = (if unit_total_qty u > 0
                then st \<lparr> weighted_quality_sum :=
                            weighted_quality_sum st + unit_quality u * of_int (unit_total_qty u) \<rparr>
                else st)
      in if unit_total_success u > 0
         then st \<lparr> weighted_performance_sum :=
                     weighted_performance_sum st +
                       unit_performance_sum u * of_int (unit_total_success u),
                   total_success_weight := total_success_weight st + unit_total_success u \<rparr>
         else st)"

text \<open>The loop over \<open>unit_list\<close>: a unit whose query times out or fails is skipped
  (\<open>continue\<close> in both \<open>except\<close> branches).\<close>

fun report_loop ::
  "database \<Rightarrow> instant \<Rightarrow> instant \<Rightarrow> instant \<Rightarrow> string \<Rightarrow> string list \<Rightarrow> report_state
     \<Rightarrow> report_state" where
  "report_loop db start_dt end_dt current_time working_mode [] st = st"
| "report_loop db start_dt end_dt current_time working_mode (unit_name # unit_list) st =
     (case get_production_data db unit_name start_dt end_dt (Some current_time) working_mode of
        Inl TimeoutError \<Rightarrow> report_loop db start_dt end_dt current_time working_mode unit_list st
      | Inl (DbError db_error) \<Rightarrow>
          report_loop db start_dt end_dt current_time working_mode unit_list st
      | Inr production_data \<Rightarrow>
          report_loop db start_dt end_dt current_time working_mode unit_list
            (accumulate_unit unit_name (summarize_unit production_data) st))"

definition initial_report_state :: report_state where
  "initial_report_state =
     \<lparr> unit_data = Map.empty, total_success_all = 0, total_fail_all = 0,
       weighted_quality_sum = 0, weighted_performance_sum = 0, total_production_all = 0,
       total_success_weight = 0 \<rparr>"

definition finish_report :: "report_state \<Rightarrow> report" where
  "finish_report st =
     (let overall_quality = (if total_production_all st > 0
                             then weighted_quality_sum st / of_int (total_production_all st)
                             else 0);
          overall_performance = (if total_success_weight st > 0
                                 then weighted_performance_sum st /
                                        of_int (total_success_weight st)
                                 else 0)
      in \<lparr> units = unit_data st,
           summary = \<lparr> total_success = total_success_all st, total_fail = total_fail_all st,
                       total_production = total_production_all st,
                       weighted_quality = overall_quality,
                       weighted_performance = overall_performance \<rparr> \<rparr>)"

text \<open>\<open>unit_list\<close> is the list the source builds from the comma-separated parameter
  (split, stripped, empty names dropped); \<open>start_dt\<close> and \<open>end_dt\<close> are the parsed
  bounds and \<open>current_time\<close> is \<open>datetime.now(TIMEZONE)\<close>.\<close>

definition get_report_data ::
  "database \<Rightarrow> string list \<Rightarrow> instant \<Rightarrow> instant \<Rightarrow> instant \<Rightarrow> string \<Rightarrow> http_error + report" where
  "get_report_data db unit_list start_dt end_dt current_time working_mode =
     (if unit_list = [] then Inl (HTTPException 400 ''No units specified'')
      else Inr (finish_report
                  (report_loop db start_dt end_dt current_time working_mode unit_list
                     initial_report_state)))"

text \<open>The weighted quality in the words of the specification (section 4.4), over the
  unit summaries that enter the report.\<close>

definition spec_weightedQuality :: "unit_summary list \<Rightarrow> rat" where
  "spec_weightedQuality us =
     (if sum_list (map unit_total_qty us) = 0 then 0
      else sum_list (map (\<lambda>u. unit_quality u * of_int (unit_total_qty u)) us) /
           of_int (sum_list (map unit_total_qty us)))"

section \<open>The single-unit historical summary (get\_historical\_data)\<close>

record historical =
  hist_unit_name :: string
  hist_total_success :: int
  hist_total_fail :: int
  hist_total_qty :: int
  hist_total_quality :: rat
  hist_total_performance :: rat
  hist_unit_performance_sum :: rat
  hist_total_theoretical_qty :: rat
  hist_models :: "model_data list"

definition historical_summary ::
  "string \<Rightarrow> instant \<Rightarrow> instant \<Rightarrow> string \<Rightarrow> model_data list \<Rightarrow> historical" where
  "historical_summary unit_name start_dt end_dt working_mode production_data =
     (let total_success = sum_list (map success_qty production_data);
          total_fail = sum_list (map fail_qty production_data);
          total_qty' = sum_list (map total_qty production_data);
          total_processed = total_success + total_fail;
          total_quality = (if total_processed > 0
                           then of_int total_success / of_int total_processed else 0);
          mwt = models_with_target production_data;
          operation_time_total = total_seconds (end_dt - start_dt);
          break_time = calculate_break_time start_dt end_dt working_mode;
          operation_time = max (operation_time_total - break_time) 0;
          total_actual_qty = sum_list (map total_qty mwt);
          theoretical = (operation_time / 3600) * weighted_target_rate mwt total_actual_qty;
          (total_performance, total_theoretical_qty) =
             (if mwt \<noteq> [] \<and> total_actual_qty > 0
              then (Some (if theoretical > 0 then of_int total_actual_qty / theoretical
                          else 0), theoretical)
              else (None, 0))
      in \<lparr> hist_unit_name = unit_name, hist_total_success = total_success,
           hist_total_fail = total_fail, hist_total_qty = total_qty',
           hist_total_quality = total_quality,
           hist_total_performance = (case total_performance of Some p \<Rightarrow> p | None \<Rightarrow> 0),
           hist_unit_performance_sum = performance_sum production_data,
           hist_total_theoretical_qty = total_theoretical_qty,
           hist_models = production_data \<rparr>)"

definition get_historical_data ::
  "database \<Rightarrow> string \<Rightarrow> instant \<Rightarrow> instant \<Rightarrow> instant \<Rightarrow> string \<Rightarrow> http_error + historical" where
  "get_historical_data db unit_name start_dt end_dt current_time working_mode =
     (case get_production_data db unit_name start_dt end_dt (Some current_time) working_mode of
        Inl TimeoutError \<Rightarrow>
          Inl (HTTPException 504 ''Database query timeout - try a smaller time range'')
      | Inl (DbError db_error) \<Rightarrow> Inl (HTTPException 500 (''Database error: '' @ db_error))
      | Inr production_data \<Rightarrow>
          Inr (historical_summary unit_name start_dt end_dt working_mode production_data))"

section \<open>Inputs and notions used in the statements\<close>

text \<open>The summaries of the units of \<open>unit_list\<close> whose query succeeded, in order: the units
  that enter the report.\<close>

definition entered_units ::
  "database \<Rightarrow> instant \<Rightarrow> instant \<Rightarrow> instant \<Rightarrow> string \<Rightarrow> string list \<Rightarrow> unit_summary list" where
  "entered_units db start_dt end_dt current_time working_mode unit_list =
     List.map_filter
       (\<lambda>unit_name.
          case get_production_data db unit_name start_dt end_dt (Some current_time) working_mode
          of Inl err \<Rightarrow> None | Inr production_data \<Rightarrow> Some (summarize_unit production_data))
       unit_list"

text \<open>Whether the query of a unit succeeds.\<close>

definition query_ok :: "database \<Rightarrow> instant \<Rightarrow> instant \<Rightarrow> instant \<Rightarrow> string \<Rightarrow> string \<Rightarrow> bool" where
  "query_ok db start_dt end_dt current_time working_mode unit_name =
     (\<not> isl (get_production_data db unit_name start_dt end_dt (Some current_time)
               working_mode))"

text \<open>Unit \<open>A\<close> produced 10 good parts and no bad one, every other unit 5 good and 5 bad.\<close>

definition two_unit_db :: database where
  "two_unit_db unit_name start_time final_query_end_time =
     (if unit_name = ''A'' then Inr [(''M1'', 10, 0, None)] else Inr [(''M1'', 5, 5, None)])"

text \<open>The query of unit \<open>A\<close> succeeds, that of unit \<open>B\<close> times out, any other fails.\<close>

definition flaky_db :: database where
  "flaky_db unit_name start_time final_query_end_time =
     (if unit_name = ''A'' then Inr [(''M1'', 10, 0, None)]
      else if unit_name = ''B'' then Inl TimeoutError
      else Inl (DbError ''connection lost''))"

section \<open>Hourly breakdown (get\_historical\_hourly\_data, hourly\_websocket\_endpoint)\<close>

text \<open>One entry of \<open>hourly_data\<close>. The bounds are kept as instants (the source stores their
  ISO text). The streaming channel adds the constant entry \<open>'oee': 0\<close>.\<close>

record hour_bucket =
  hour_start :: instant
  hour_end :: instant
  bucket_success_qty :: int
  bucket_fail_qty :: int
  bucket_total_qty :: int
  bucket_quality :: rat
  bucket_performance :: rat
  bucket_oee :: "int option"
  bucket_theoretical_qty :: rat

text \<open>The entry built from the records of one hour (lines 335 to 371, and again lines
  617 to 650).\<close>

definition hour_metrics :: "model_data list \<Rightarrow> instant \<Rightarrow> instant \<Rightarrow> string \<Rightarrow> hour_bucket" where
  "hour_metrics hour_data current_hour hour_end' working_mode =
     (let hour_success = sum_list (map success_qty hour_data);
          hour_fail = sum_list (map fail_qty hour_data);
          hour_total = sum_list (map total_qty hour_data);
          hour_quality = (if hour_success + hour_fail > 0
                          then of_int hour_success / of_int (hour_success + hour_fail) else 0);
          mwt = models_with_target hour_data;
          hour_op_time = total_seconds (hour_end' - current_hour);
          hour_break = calculate_break_time current_hour hour_end' working_mode;
          hour_op_time = max (hour_op_time - hour_break) 0;
          hour_actual_qty = sum_list (map total_qty mwt);
          theoretical = (hour_op_time / 3600) * weighted_target_rate mwt hour_actual_qty;
          (hour_performance, hour_theoretical_qty) =
             (if mwt \<noteq> [] \<and> hour_actual_qty > 0
              then (if theoretical > 0 then of_int hour_actual_qty / theoretical else 0,
                    theoretical)
              else (0, 0))
      in \<lparr> hour_start = current_hour, hour_end = hour_end',
           bucket_success_qty = hour_success, bucket_fail_qty = hour_fail,
           bucket_total_qty = hour_total, bucket_quality = hour_quality,
           bucket_performance = hour_performance, bucket_oee = None,
           bucket_theoretical_qty = hour_theoretical_qty \<rparr>)"

record hourly_state =
  hourly_data :: "hour_bucket list"
  hs_total_success :: int
  hs_total_fail :: int
  hs_total_qty :: int

text \<open>One iteration of the loop of \<open>get_historical_hourly_data\<close> apart from the move of
  the cursor: an hour whose query times out or fails is skipped.\<close>

definition historical_hour_step ::
  "database \<Rightarrow> string \<Rightarrow> string \<Rightarrow> instant \<Rightarrow> instant \<Rightarrow> instant \<Rightarrow> hourly_state
     \<Rightarrow> hourly_state" where
  "historical_hour_step db unit_name working_mode current_time current_hour hour_end' st =
     (case get_production_data db unit_name current_hour hour_end' (Some current_time)
             working_mode of
        Inl err \<Rightarrow> st
      | Inr hour_data \<Rightarrow>
          (let b = hour_metrics hour_data current_hour hour_end' working_mode
           in \<lparr> hourly_data = hourly_data st @ [b],
                hs_total_success = hs_total_success st + bucket_success_qty b,
                hs_total_fail = hs_total_fail st + bucket_fail_qty b,
                hs_total_qty = hs_total_qty st + bucket_total_qty b \<rparr>))"

function historical_hour_loop ::
  "database \<Rightarrow> string \<Rightarrow> string \<Rightarrow> instant \<Rightarrow> instant \<Rightarrow> instant \<Rightarrow> hourly_state
     \<Rightarrow> hourly_state" where
  "historical_hour_loop db unit_name working_mode current_time end_dt current_hour st =
     (if current_hour < end_dt then
        historical_hour_loop db unit_name working_mode current_time end_dt
          (min (current_hour + HOUR) end_dt)
          (historical_hour_step db unit_name working_mode current_time current_hour
             (min (current_hour + HOUR) end_dt) st)
      else st)"
  by pat_completeness auto
termination
  by (relation "measure (\<lambda>(db, u, m, now, end_dt, cur, st). nat (end_dt - cur))") auto

declare historical_hour_loop.simps [simp del]

record hourly_report =
  hr_unit_name :: string
  hr_total_success :: int
  hr_total_fail :: int
  hr_total_qty :: int
  hr_total_quality :: rat
  hr_total_performance :: rat
  hr_total_theoretical_qty :: rat
  hr_hourly_data :: "hour_bucket list"

definition get_historical_hourly_data ::
  "database \<Rightarrow> string \<Rightarrow> instant \<Rightarrow> instant \<Rightarrow> instant \<Rightarrow> string \<Rightarrow> hourly_report" where
  "get_historical_hourly_data db unit_name start_dt end_dt current_time working_mode =
     (let current_hour = floor_hour start_dt;
          st = historical_hour_loop db unit_name working_mode current_time end_dt current_hour
                 \<lparr> hourly_data = [], hs_total_success = 0, hs_total_fail = 0,
                   hs_total_qty = 0 \<rparr>;
          total_success = hs_total_success st;
          total_fail = hs_total_fail st;
          total_quality = (if total_success + total_fail > 0
                           then of_int total_success / of_int (total_success + total_fail)
                           else 0);
          total_theoretical_qty = sum_list (map bucket_theoretical_qty (hourly_data st));
          total_performance = (if total_theoretical_qty > 0
                               then of_int (hs_total_qty st) / total_theoretical_qty else 0)
      in \<lparr> hr_unit_name = unit_name, hr_total_success = total_success,
           hr_total_fail = total_fail, hr_total_qty = hs_total_qty st,
           hr_total_quality = total_quality, hr_total_performance = total_performance,
           hr_total_theoretical_qty = total_theoretical_qty,
           hr_hourly_data = hourly_data st \<rparr>)"

text \<open>The hourly breakdown of the streaming channel (lines 584 to 655). The end of the
  current bucket, and the cursor after it.\<close>

definition ws_hour_end :: "bool \<Rightarrow> instant \<Rightarrow> instant \<Rightarrow> instant \<Rightarrow> instant" where
  "ws_hour_end is_live_data current_time actual_end_for_hourly current_hour =
     (let hour_end' = current_hour + HOUR
      in if is_live_data \<and> current_hour < current_time \<and> current_time < hour_end'
         then current_time
         else min hour_end' actual_end_for_hourly)"

definition ws_next_hour :: "bool \<Rightarrow> instant \<Rightarrow> instant \<Rightarrow> instant \<Rightarrow> instant" where
  "ws_next_hour is_live_data current_time current_hour hour_end' =
     (if is_live_data \<and> hour_end' = current_time then current_hour + HOUR else hour_end')"

definition ws_hour_step ::
  "database \<Rightarrow> string \<Rightarrow> string \<Rightarrow> instant \<Rightarrow> instant \<Rightarrow> instant \<Rightarrow> hour_bucket list
     \<Rightarrow> hour_bucket list" where
  "ws_hour_step db unit_name working_mode current_time current_hour hour_end' hourly_data' =
     (case get_production_data db unit_name current_hour hour_end' (Some current_time)
             working_mode of
        Inl err \<Rightarrow> hourly_data'
      | Inr hour_data \<Rightarrow>
          hourly_data' @
            [(hour_metrics hour_data current_hour hour_end' working_mode)
               \<lparr> bucket_oee := Some 0 \<rparr>])"

function ws_hour_loop ::
  "database \<Rightarrow> string \<Rightarrow> string \<Rightarrow> instant \<Rightarrow> bool \<Rightarrow> instant \<Rightarrow> instant \<Rightarrow> hour_bucket list
     \<Rightarrow> hour_bucket list" where
  "ws_hour_loop db unit_name working_mode current_time is_live_data actual_end_for_hourly
      current_hour hourly_data' =
     (if current_hour < actual_end_for_hourly then
        ws_hour_loop db unit_name working_mode current_time is_live_data actual_end_for_hourly
          (ws_next_hour is_live_data current_time current_hour
             (ws_hour_end is_live_data current_time actual_end_for_hourly current_hour))
          (ws_hour_step db unit_name working_mode current_time current_hour
             (ws_hour_end is_live_data current_time actual_end_for_hourly current_hour)
             hourly_data')
      else hourly_data')"
  by pat_completeness auto
termination
  by (relation "measure (\<lambda>(db, u, m, now, live, aend, cur, hd). nat (aend - cur))")
     (auto simp: ws_next_hour_def ws_hour_end_def Let_def)

declare ws_hour_loop.simps [simp del]

definition ws_hourly_breakdown ::
  "database \<Rightarrow> string \<Rightarrow> instant \<Rightarrow> instant \<Rightarrow> instant \<Rightarrow> string \<Rightarrow> hour_bucket list" where
  "ws_hourly_breakdown db unit_name start_time end_time current_time working_mode =
     (let current_hour = floor_hour start_time;
          (is_live_data, actual_end_for_hourly) = hourly_live_end end_time current_time
      in ws_hour_loop db unit_name working_mode current_time is_live_data
           actual_end_for_hourly current_hour [])"

text \<open>A chain of buckets from \<open>a\<close> to \<open>b\<close>: the first starts at \<open>a\<close>, each is non-empty
  and ends where the next starts, the last ends at \<open>b\<close>. So the buckets partition
  \<open>[a, b)\<close>, with no gap and no overlap.\<close>

fun chain :: "instant \<Rightarrow> hour_bucket list \<Rightarrow> instant \<Rightarrow> bool" where
  "chain a [] b = (a = b)"
| "chain a (x # xs) b = (hour_start x = a \<and> a < hour_end x \<and> chain (hour_end x) xs b)"

text \<open>Every bucket but the last is one hour long, the last at most one hour.\<close>

fun hour_lengths :: "hour_bucket list \<Rightarrow> bool" where
  "hour_lengths [] = True"
| "hour_lengths [x] = (hour_end x - hour_start x \<le> HOUR)"
| "hour_lengths (x # y # ys) = (hour_end x - hour_start x = HOUR \<and> hour_lengths (y # ys))"

text \<open>A database whose every query succeeds, with no group.\<close>

definition empty_db :: database where
  "empty_db unit_name start_time final_query_end_time = Inr []"

text \<open>A database whose query fails for the hour that starts at 11:00 of day 0 and returns
  no group otherwise.\<close>

definition gap_db :: database where
  "gap_db unit_name start_time final_query_end_time =
     (if start_time = 11 * HOUR then Inl (DbError ''connection lost'') else Inr [])"

text \<open>Every query of the database succeeds.\<close>

definition all_queries_succeed :: "database \<Rightarrow> bool" where
  "all_queries_succeed db = (\<forall>unit_name a b. \<not> isl (db unit_name a b))"

text \<open>The bounds of the buckets.\<close>

definition bounds :: "hour_bucket list \<Rightarrow> (instant \<times> instant) list" where
  "bounds bs = map (\<lambda>b. (hour_start b, hour_end b)) bs"

section \<open>Streaming sessions: the wait between two pushes (main.py)\<close>

text \<open>The parameters a session holds across iterations: the \<open>unit_name\<close> of the route and
  the loop variables \<open>start_time\<close>, \<open>end_time\<close>, \<open>working_mode\<close>.\<close>

record stream_params =
  sp_unit_name :: string
  sp_start_time :: instant
  sp_end_time :: instant
  sp_working_mode :: string

text \<open>A field of an inbound JSON object that \<open>_parse_ws_params\<close> reads as a time: absent,
  present but not ISO-8601 text, or present and parsed to an instant.\<close>

datatype time_field = Absent | Malformed | Parsed instant

text \<open>An inbound JSON object: whether \<open>get('heartbeat')\<close> is truthy, the two time fields,
  and \<open>working_mode\<close> if present.\<close>

record inbound =
  heartbeat :: bool
  in_start_time :: time_field
  in_end_time :: time_field
  in_working_mode :: "string option"

text \<open>What \<open>asyncio.wait_for(websocket.receive_text(), timeout=PUSH_INTERVAL)\<close> followed
  by \<open>json.loads\<close> gives: nothing within the interval, a disconnect, text that is not
  JSON, or a JSON object.\<close>

datatype received = NoMessage | Disconnected | NotJson | Json inbound

datatype outbound = HeartbeatAck rat

datatype ws_error = WebSocketDisconnect | JSONDecodeError | KeyError string | ValueError

definition parse_ws_params :: "inbound \<Rightarrow> ws_error + (instant \<times> instant \<times> string)" where
  "parse_ws_params params =
     (case in_start_time params of
        Absent \<Rightarrow> Inl (KeyError ''start_time'')
      | Malformed \<Rightarrow>
          (case in_end_time params of Absent \<Rightarrow> Inl (KeyError ''end_time'')
           | _ \<Rightarrow> Inl ValueError)
      | Parsed start_time \<Rightarrow>
          (case in_end_time params of
             Absent \<Rightarrow> Inl (KeyError ''end_time'')
           | Malformed \<Rightarrow> Inl ValueError
           | Parsed end_time \<Rightarrow>
               Inr (start_time, end_time,
                    (case in_working_mode params of None \<Rightarrow> ''mode1'' | Some wm \<Rightarrow> wm))))"

text \<open>Lines 497 to 506 of \<open>websocket_endpoint\<close> and, word for word, lines 689 to 698 of
  \<open>hourly_websocket_endpoint\<close>: the new parameters and the messages sent, or the
  exception that ends the session. \<open>timestamp\<close> is \<open>time.time()\<close>.\<close>

definition wait_for_message ::
  "stream_params \<Rightarrow> received \<Rightarrow> rat \<Rightarrow> ws_error + (stream_params \<times> outbound list)" where
  "wait_for_message params msg timestamp =
     (case msg of
        NoMessage \<Rightarrow> Inr (params, [])
      | Disconnected \<Rightarrow> Inl WebSocketDisconnect
      | NotJson \<Rightarrow> Inl JSONDecodeError
      | Json new_params \<Rightarrow>
          if heartbeat new_params then Inr (params, [HeartbeatAck timestamp])
          else (case parse_ws_params new_params of
                  Inl err \<Rightarrow> Inl err
                | Inr (start_time, end_time, working_mode) \<Rightarrow>
                    Inr (params \<lparr> sp_start_time := start_time, sp_end_time := end_time,
                                  sp_working_mode := working_mode \<rparr>, [])))"

section \<open>Break time: sign and monotonicity\<close>

lemma total_seconds_mono: "x \<le> y \<Longrightarrow> total_seconds x \<le> total_seconds y"
  by (simp add: total_seconds_def divide_right_mono)

lemma clip_mono:
  fixes s e s' e' A B :: int
  shows "s' \<le> s \<Longrightarrow> e \<le> e' \<Longrightarrow>
         max 0 (min e B - max s A) \<le> max 0 (min e' B - max s' A)"
  by (simp add: max_def min_def)

lemma break_overlap_clip:
  "break_overlap bi s e d =
     total_seconds (max 0 (min e (if fst bi > snd bi then combine d (snd bi) + DAY
                                  else combine d (snd bi))
                           - max s (combine d (fst bi))))"
proof -
  have aux: "(if x < y then total_seconds (y - x) else 0) = total_seconds (max 0 (y - x))"
    for x y :: int
    by (simp add: total_seconds_def max_def)
  show ?thesis
    unfolding break_overlap_def Let_def aux by simp
qed

lemma break_overlap_nonneg: "0 \<le> break_overlap bi s e d"
  unfolding break_overlap_clip by (simp add: total_seconds_def)

lemma break_overlap_mono:
  "s' \<le> s \<Longrightarrow> e \<le> e' \<Longrightarrow> break_overlap bi s e d \<le> break_overlap bi s' e' d"
  unfolding break_overlap_clip by (rule total_seconds_mono) (rule clip_mono)

lemma date_loop_sum:
  "date_loop bi s e cur ed tot = tot + (\<Sum>d \<in> {cur..ed}. break_overlap bi s e d)"
proof (induction bi s e cur ed tot rule: date_loop.induct)
  case (1 bi s e cur ed tot)
  note unroll = date_loop.simps [of bi s e cur ed tot]
  show ?case
  proof (cases "cur \<le> ed")
    case True
    have "{cur..ed} = insert cur {cur + 1..ed}" using True by auto
    then have "(\<Sum>d \<in> {cur..ed}. break_overlap bi s e d) =
               break_overlap bi s e cur + (\<Sum>d \<in> {cur + 1..ed}. break_overlap bi s e d)"
      by simp
    with True "1.IH" unroll show ?thesis by simp
  next
    case False
    with unroll show ?thesis by simp
  qed
qed

lemma breaks_loop_sum:
  "breaks_loop bs s e tot =
     tot + (\<Sum>b \<leftarrow> bs. \<Sum>d \<in> {date_of s..date_of e}. break_overlap (SHIFT_BREAKS b) s e d)"
  by (induction bs arbitrary: tot) (simp_all add: date_loop_sum add.assoc)

lemma date_of_mono: "s \<le> t \<Longrightarrow> date_of s \<le> date_of t"
  by (simp add: date_of_def zdiv_mono1)

lemma day_sum_nonneg: "0 \<le> (\<Sum>d \<in> D. break_overlap bi s e d)"
  by (rule sum_nonneg) (rule break_overlap_nonneg)

lemma day_sum_mono:
  assumes "s' \<le> s" and "e \<le> e'"
  shows "(\<Sum>d \<in> {date_of s..date_of e}. break_overlap bi s e d)
         \<le> (\<Sum>d \<in> {date_of s'..date_of e'}. break_overlap bi s' e' d)"
proof -
  have sub: "{date_of s..date_of e} \<subseteq> {date_of s'..date_of e'}"
    using assms by (auto dest: date_of_mono)
  have "(\<Sum>d \<in> {date_of s..date_of e}. break_overlap bi s e d)
        \<le> (\<Sum>d \<in> {date_of s..date_of e}. break_overlap bi s' e' d)"
    by (rule sum_mono) (rule break_overlap_mono [OF assms])
  also have "\<dots> \<le> (\<Sum>d \<in> {date_of s'..date_of e'}. break_overlap bi s' e' d)"
    by (rule sum_mono2) (use sub in \<open>auto simp: break_overlap_nonneg\<close>)
  finally show ?thesis .
qed

lemma calculate_break_time_sum:
  "\<exists>bs. \<forall>s e. calculate_break_time s e m =
     (\<Sum>b \<leftarrow> bs. \<Sum>d \<in> {date_of s..date_of e}. break_overlap (SHIFT_BREAKS b) s e d)"
  by (rule exI [of _ "case WORKING_MODE_BREAKS (if WORKING_MODE_BREAKS m = None then ''mode1''
         else m) of Some bs \<Rightarrow> bs | None \<Rightarrow> []"])
     (simp add: calculate_break_time_def Let_def breaks_loop_sum)

text \<open>
  C7: for all windows and working modes the break time is non-negative, and it does
  not decrease when the window widens: if \<open>[s, e]\<close> lies inside \<open>[s', e']\<close> then
  the break time of \<open>[s, e]\<close> is at most that of \<open>[s', e']\<close>.
\<close>

theorem calculate_break_time_nonneg_mono:
  "0 \<le> calculate_break_time s e m \<and>
   (s' \<le> s \<and> e \<le> e' \<longrightarrow> calculate_break_time s e m \<le> calculate_break_time s' e' m)"
proof -
  obtain bs where eq: "\<And>s e. calculate_break_time s e m =
     (\<Sum>b \<leftarrow> bs. \<Sum>d \<in> {date_of s..date_of e}. break_overlap (SHIFT_BREAKS b) s e d)"
    using calculate_break_time_sum [of m] by blast
  have nonneg: "0 \<le> calculate_break_time s e m"
    unfolding eq by (rule sum_list_nonneg) (auto simp: day_sum_nonneg)
  have mono: "calculate_break_time s e m \<le> calculate_break_time s' e' m"
    if "s' \<le> s" "e \<le> e'"
    unfolding eq by (rule sum_list_mono) (rule day_sum_mono [OF that])
  from nonneg mono show ?thesis by blast
qed

theorem calculate_break_time_nonneg_mono_witness:
  "(36000000000::int) \<le> 36300000000 \<and> (36600000000::int) \<le> 45000000000 \<and>
   0 \<le> calculate_break_time 36300000000 36600000000 ''mode1'' \<and>
   calculate_break_time 36300000000 36600000000 ''mode1''
     \<le> calculate_break_time 36000000000 45000000000 ''mode1''"
  using calculate_break_time_nonneg_mono
    [of 36300000000 36600000000 "''mode1''" 36000000000 45000000000]
  by simp

section \<open>Per-model metrics\<close>

lemma first_pass_eq:
  "first_pass h rows rs mw =
     (rs @ map (make_model_data h) rows,
      mw @ map (make_model_data h) (filter (\<lambda>r. positive_target (snd (snd (snd r)))) rows))"
  by (induction rows arbitrary: rs mw) (simp_all add: Let_def)

lemma compute_metrics_eq:
  "compute_metrics rows s e m =
     (if \<exists>r \<in> set rows. positive_target (snd (snd (snd r)))
      then map (with_target_update (operation_time_hours s e m) \<circ>
                make_model_data (operation_time_hours s e m)) rows
      else map (without_target_update \<circ> make_model_data (operation_time_hours s e m)) rows)"
  by (simp add: compute_metrics_def Let_def first_pass_eq filter_empty_conv)

lemma get_production_data_Inr:
  "get_production_data db u s e ct m = Inr results \<longleftrightarrow>
     (\<exists>rows. db u s (fst (resolve_end_times s e ct)) = Inr rows \<and>
        results = compute_metrics rows s (snd (resolve_end_times s e ct)) m)"
  by (auto simp: get_production_data_def Let_def split: prod.splits sum.splits)

lemma make_model_data_fields:
  "total_qty (make_model_data h r) = fst (snd r)"
  "success_qty (make_model_data h r) = fst (snd r)"
  "fail_qty (make_model_data h r) = fst (snd (snd r))"
  "target (make_model_data h r) = snd (snd (snd r))"
  "performance (make_model_data h r) = None"
  "quality (make_model_data h r) =
     (if fst (snd r) + fst (snd (snd r)) > 0
      then of_int (fst (snd r)) / of_int (fst (snd r) + fst (snd (snd r))) else 0)"
  by (cases r; simp add: make_model_data_def)+

lemma with_target_update_fields:
  "total_qty (with_target_update h md) = total_qty md"
  "success_qty (with_target_update h md) = success_qty md"
  "fail_qty (with_target_update h md) = fail_qty md"
  "quality (with_target_update h md) = quality md"
  by (simp_all add: with_target_update_def Let_def split: option.splits)

lemma without_target_update_fields:
  "total_qty (without_target_update md) = total_qty md"
  "success_qty (without_target_update md) = success_qty md"
  "fail_qty (without_target_update md) = fail_qty md"
  "quality (without_target_update md) = quality md"
  by (simp_all add: without_target_update_def)

lemma compute_metrics_cases:
  assumes "md \<in> set (compute_metrics rows s e m)"
  obtains h r where "r \<in> set rows" "md = with_target_update h (make_model_data h r)"
  | h r where "r \<in> set rows" "md = without_target_update (make_model_data h r)"
  using assms unfolding compute_metrics_eq by (auto split: if_splits)

lemma quality_bounds:
  fixes a b :: int
  assumes "0 \<le> a" "0 \<le> b" "0 < a + b"
  shows "0 \<le> (of_int a / of_int (a + b) :: rat) \<and> (of_int a / of_int (a + b) :: rat) \<le> 1"
proof -
  have pos: "(0::rat) < of_int (a + b)" using assms by simp
  have le: "(of_int a :: rat) \<le> of_int (a + b)" using assms by simp
  have "0 \<le> (of_int a :: rat)" using assms by simp
  then have "0 \<le> (of_int a / of_int (a + b) :: rat)" using pos by simp
  moreover have "(of_int a / of_int (a + b) :: rat) \<le> 1"
    using le pos by (simp add: divide_le_eq)
  ultimately show ?thesis by blast
qed

text \<open>
  C1 (as the code has it): in every record returned by \<open>get_production_data\<close> the
  field \<open>total_qty\<close> is the success count \<open>success_qty\<close> (the source sets both from
  \<open>row[1]\<close>); the failures are not part of it.
\<close>

theorem total_qty_is_success_qty:
  "get_production_data db u s e ct m = Inr results \<Longrightarrow> md \<in> set results
     \<Longrightarrow> total_qty md = success_qty md"
proof -
  assume res: "get_production_data db u s e ct m = Inr results" and md: "md \<in> set results"
  from res obtain rows where
    "results = compute_metrics rows s (snd (resolve_end_times s e ct)) m"
    unfolding get_production_data_Inr by blast
  with md have "md \<in> set (compute_metrics rows s (snd (resolve_end_times s e ct)) m)"
    by simp
  then show ?thesis
    by (rule compute_metrics_cases)
       (simp_all add: with_target_update_fields without_target_update_fields
          make_model_data_fields)
qed

lemma one_row_eval:
  "get_production_data one_row_db ''U1'' (13 * HOUR) (14 * HOUR) None ''mode1'' =
     Inr [\<lparr> model = ''M1'', success_qty = 80, fail_qty = 20, target = Some 100,
            total_qty = 80, quality = 4 / 5, performance = Some (4 / 5), oee = None,
            theoretical_qty = 100 \<rparr>]"
  by code_simp

theorem total_qty_is_success_qty_witness:
  "get_production_data one_row_db ''U1'' (13 * HOUR) (14 * HOUR) None ''mode1'' =
     Inr [\<lparr> model = ''M1'', success_qty = 80, fail_qty = 20, target = Some 100,
            total_qty = 80, quality = 4 / 5, performance = Some (4 / 5), oee = None,
            theoretical_qty = 100 \<rparr>] \<and>
   total_qty \<lparr> model = ''M1'', success_qty = 80, fail_qty = 20, target = Some 100,
            total_qty = 80, quality = 4 / 5, performance = Some (4 / 5), oee = None,
            theoretical_qty = 100 \<rparr> =
   success_qty \<lparr> model = ''M1'', success_qty = 80, fail_qty = 20, target = Some 100,
            total_qty = 80, quality = 4 / 5, performance = Some (4 / 5), oee = None,
            theoretical_qty = (100::rat) \<rparr>"
  using total_qty_is_success_qty [OF one_row_eval] one_row_eval by simp

theorem total_qty_invariant_counterexample:
  "total_qty (hd (projr (get_production_data one_row_db ''U1'' (13 * HOUR) (14 * HOUR)
       None ''mode1''))) \<noteq>
   success_qty (hd (projr (get_production_data one_row_db ''U1'' (13 * HOUR) (14 * HOUR)
       None ''mode1''))) +
   fail_qty (hd (projr (get_production_data one_row_db ''U1'' (13 * HOUR) (14 * HOUR)
       None ''mode1'')))"
  unfolding one_row_eval by simp

text \<open>
  C2 (as the code has it): one query row with 80 successes, 20 failures and a target
  rate of 100 per hour, over a window whose effective length is one hour and that holds
  no break time, gives quality 0.8, theoretical quantity 100 and performance 0.8: the
  performance divides \<open>total_qty\<close>, which is the success count 80, by the theoretical
  quantity.
\<close>

theorem one_hour_round_trip:
  assumes "resolve_end_times s e ct = (qe, s + HOUR)"
    and "db u s qe = Inr [(name, 80, 20, Some 100)]"
    and "calculate_break_time s (s + HOUR) m = 0"
  shows "get_production_data db u s e ct m =
     Inr [\<lparr> model = name, success_qty = 80, fail_qty = 20, target = Some 100,
            total_qty = 80, quality = 4 / 5, performance = Some (4 / 5), oee = None,
            theoretical_qty = 100 \<rparr>]"
proof -
  have hours: "operation_time_hours s (s + HOUR) m = 1"
    using assms(3) by (simp add: operation_time_hours_def Let_def total_seconds_def)
  have "compute_metrics [(name, 80, 20, Some 100)] s (s + HOUR) m =
     [\<lparr> model = name, success_qty = 80, fail_qty = 20, target = Some 100,
        total_qty = 80, quality = 4 / 5, performance = Some (4 / 5), oee = None,
        theoretical_qty = 100 \<rparr>]"
    unfolding compute_metrics_eq hours
    by (simp add: positive_target_def make_model_data_def with_target_update_def)
  then show ?thesis
    using assms(1,2) by (simp add: get_production_data_def)
qed

lemma afternoon_hour_no_break: "calculate_break_time (13 * HOUR) (13 * HOUR + HOUR) ''mode1'' = 0"
  by code_simp

theorem one_hour_round_trip_witness:
  "resolve_end_times (13 * HOUR) (14 * HOUR) None = (14 * HOUR, 13 * HOUR + HOUR) \<and>
   one_row_db ''U1'' (13 * HOUR) (14 * HOUR) = Inr [(''M1'', 80, 20, Some 100)] \<and>
   calculate_break_time (13 * HOUR) (13 * HOUR + HOUR) ''mode1'' = 0 \<and>
   get_production_data one_row_db ''U1'' (13 * HOUR) (14 * HOUR) None ''mode1'' =
     Inr [\<lparr> model = ''M1'', success_qty = 80, fail_qty = 20, target = Some 100,
            total_qty = 80, quality = 4 / 5, performance = Some (4 / 5), oee = None,
            theoretical_qty = 100 \<rparr>]"
proof -
  have w: "resolve_end_times (13 * HOUR) (14 * HOUR) None = (14 * HOUR, 13 * HOUR + HOUR)"
    by (simp add: resolve_end_times_def)
  have d: "one_row_db ''U1'' (13 * HOUR) (14 * HOUR) = Inr [(''M1'', 80, 20, Some 100)]"
    by (simp add: one_row_db_def)
  from one_hour_round_trip [where db = one_row_db and u = "''U1''" and s = "13 * HOUR"
      and e = "14 * HOUR" and ct = None and qe = "14 * HOUR" and name = "''M1''"
      and m = "''mode1''", OF w d afternoon_hour_no_break]
    w d afternoon_hour_no_break
  show ?thesis by blast
qed

theorem round_trip_performance_counterexample:
  "map performance (projr (get_production_data one_row_db ''U1'' (13 * HOUR) (14 * HOUR)
      None ''mode1'')) \<noteq> [Some 1]"
  unfolding one_row_eval by simp

text \<open>
  C4: when no row of a batch has a positive target rate, every record that
  \<open>get_production_data\<close> returns for the batch has performance \<open>None\<close> (never 0).
\<close>

theorem no_target_performance_None:
  assumes "db u s (fst (resolve_end_times s e ct)) = Inr rows"
    and "\<forall>r \<in> set rows. \<not> positive_target (snd (snd (snd r)))"
  shows "\<exists>results. get_production_data db u s e ct m = Inr results \<and>
           length results = length rows \<and>
           (\<forall>md \<in> set results. performance md = None)"
proof -
  let ?h = "operation_time_hours s (snd (resolve_end_times s e ct)) m"
  let ?results = "compute_metrics rows s (snd (resolve_end_times s e ct)) m"
  have eq: "?results = map (without_target_update \<circ> make_model_data ?h) rows"
    using assms(2) unfolding compute_metrics_eq by simp
  have "performance md = None" if "md \<in> set ?results" for md
  proof -
    from that obtain r where r: "r \<in> set rows"
      and md: "md = without_target_update (make_model_data ?h r)"
      unfolding eq by auto
    from r assms(2) have "\<not> positive_target (target (make_model_data ?h r))"
      by (simp add: make_model_data_fields)
    then show ?thesis
      by (simp add: md without_target_update_def make_model_data_fields)
  qed
  moreover have "length ?results = length rows" unfolding eq by simp
  moreover have "get_production_data db u s e ct m = Inr ?results"
    unfolding get_production_data_Inr using assms(1) by blast
  ultimately show ?thesis by blast
qed

theorem no_target_performance_None_witness:
  "no_target_db ''U1'' (13 * HOUR) (fst (resolve_end_times (13 * HOUR) (14 * HOUR) None)) =
     Inr [(''M1'', 5, 1, None), (''M2'', 3, 0, Some 0)] \<and>
   \<not> positive_target None \<and> \<not> positive_target (Some 0) \<and>
   map performance
     (projr (get_production_data no_target_db ''U1'' (13 * HOUR) (14 * HOUR) None ''mode1''))
     = [None, None]"
proof -
  have d: "no_target_db ''U1'' (13 * HOUR) (fst (resolve_end_times (13 * HOUR) (14 * HOUR) None)) =
     Inr [(''M1'', 5, 1, None), (''M2'', 3, 0, Some 0)]"
    by (simp add: no_target_db_def)
  have n1: "\<not> positive_target None" and n2: "\<not> positive_target (Some 0)"
    by (simp_all add: positive_target_def)
  then have n: "\<forall>r \<in> set [(''M1'', 5::int, 1::int, None), (''M2'', 3, 0, Some (0::rat))].
      \<not> positive_target (snd (snd (snd r)))"
    by simp
  from no_target_performance_None [where db = no_target_db and u = "''U1''"
      and s = "13 * HOUR" and e = "14 * HOUR" and ct = None and m = "''mode1''", OF d n]
  obtain results where
    r: "get_production_data no_target_db ''U1'' (13 * HOUR) (14 * HOUR) None ''mode1''
          = Inr results"
    and len: "length results = 2"
    and none: "\<forall>md \<in> set results. performance md = None"
    by auto
  from len obtain x y where xy: "results = [x, y]"
    by (auto simp: length_Suc_conv numeral_2_eq_2)
  with none have "map performance results = [None, None]" by simp
  then have "map performance
     (projr (get_production_data no_target_db ''U1'' (13 * HOUR) (14 * HOUR) None ''mode1''))
     = [None, None]"
    unfolding r by simp
  with d n1 n2 show ?thesis by blast
qed

text \<open>
  C8: for every record returned for a query row with non-negative counts (the counts
  are SQL sums of 0 and 1), the quality lies in \<open>[0, 1]\<close> when the total count
  \<open>success_qty + fail_qty\<close> is positive and is exactly 0 when it is 0. The same holds
  with the record's field \<open>total_qty\<close> read as the total count.
\<close>

theorem quality_in_unit_interval:
  assumes "get_production_data db u s e ct m = Inr results" and "md \<in> set results"
    and "0 \<le> success_qty md" and "0 \<le> fail_qty md"
  shows "(success_qty md + fail_qty md > 0 \<longrightarrow> 0 \<le> quality md \<and> quality md \<le> 1) \<and>
         (success_qty md + fail_qty md = 0 \<longrightarrow> quality md = 0) \<and>
         (total_qty md > 0 \<longrightarrow> 0 \<le> quality md \<and> quality md \<le> 1) \<and>
         (total_qty md = 0 \<longrightarrow> quality md = 0)"
proof -
  from assms(1) obtain rows where
    "results = compute_metrics rows s (snd (resolve_end_times s e ct)) m"
    unfolding get_production_data_Inr by blast
  with assms(2) have "md \<in> set (compute_metrics rows s (snd (resolve_end_times s e ct)) m)"
    by simp
  then have q: "quality md =
      (if success_qty md + fail_qty md > 0
       then of_int (success_qty md) / of_int (success_qty md + fail_qty md) else 0)"
    and t: "total_qty md = success_qty md"
    by (rule compute_metrics_cases;
        simp add: with_target_update_fields without_target_update_fields
          make_model_data_fields)+
  show ?thesis
  proof (cases "success_qty md + fail_qty md > 0")
    case True
    from quality_bounds [OF assms(3,4) True] q t True show ?thesis by simp
  next
    case False
    with assms(3,4) have "success_qty md = 0" by linarith
    with False q t show ?thesis by simp
  qed
qed

theorem quality_in_unit_interval_witness:
  "get_production_data one_row_db ''U1'' (13 * HOUR) (14 * HOUR) None ''mode1'' =
     Inr [\<lparr> model = ''M1'', success_qty = 80, fail_qty = 20, target = Some 100,
            total_qty = 80, quality = 4 / 5, performance = Some (4 / 5), oee = None,
            theoretical_qty = 100 \<rparr>] \<and>
   (0::rat) \<le> 4 / 5 \<and> (4 / 5 :: rat) \<le> 1"
proof -
  let ?md = "\<lparr> model = ''M1'', success_qty = 80, fail_qty = 20, target = Some 100,
            total_qty = 80, quality = 4 / 5, performance = Some (4 / 5), oee = None,
            theoretical_qty = (100::rat) \<rparr>"
  have "?md \<in> set [?md]" by simp
  from quality_in_unit_interval [OF one_row_eval this] one_row_eval
  show ?thesis by simp
qed

section \<open>Live and historical windows\<close>

lemma resolve_end_times_now:
  "resolve_end_times s e (Some now) =
     (if now - e \<le> 5 * MINUTE then (max s now, max s now) else (e, e))"
  by (simp add: resolve_end_times_def Let_def max_def)

text \<open>
  C3 (as the code has it): for every window and reference instant \<open>now\<close>,
  \<open>get_production_data\<close> takes the window as live exactly when
  \<open>now - window.end \<le> 5 minutes\<close>, which includes every \<open>now\<close> before \<open>window.end\<close>,
  and then both the query end and the effective end are \<open>max(window.start, now)\<close>;
  otherwise (\<open>now\<close> more than 5 minutes past \<open>window.end\<close>) both are \<open>window.end\<close>.
  The summary computations of the two streaming channels decide by the same test.
  For \<open>now\<close> not before \<open>window.end\<close> this is the rule of the specification.
\<close>

theorem live_window_rule:
  "resolve_end_times s e (Some now) =
     (if now - e \<le> 5 * MINUTE then (max s now, max s now) else (e, e)) \<and>
   summary_actual_end e now = (if now - e \<le> 5 * MINUTE then now else e) \<and>
   (e \<le> now \<longrightarrow> snd (resolve_end_times s e (Some now)) = fst (spec_resolveEffectiveEnd s e now))"
  by (simp add: resolve_end_times_now summary_actual_end_def spec_resolveEffectiveEnd_def)

theorem live_window_rule_witness:
  "resolve_end_times (8 * HOUR) (16 * HOUR) (Some (12 * HOUR)) = (12 * HOUR, 12 * HOUR) \<and>
   summary_actual_end (16 * HOUR) (12 * HOUR) = 12 * HOUR \<and>
   resolve_end_times (8 * HOUR) (16 * HOUR) (Some (16 * HOUR + 4 * MINUTE))
     = (16 * HOUR + 4 * MINUTE, 16 * HOUR + 4 * MINUTE) \<and>
   resolve_end_times (8 * HOUR) (16 * HOUR) (Some (16 * HOUR + 6 * MINUTE))
     = (16 * HOUR, 16 * HOUR) \<and>
   (16 * HOUR \<le> 16 * HOUR + 4 * MINUTE \<and>
    snd (resolve_end_times (8 * HOUR) (16 * HOUR) (Some (16 * HOUR + 4 * MINUTE))) =
    fst (spec_resolveEffectiveEnd (8 * HOUR) (16 * HOUR) (16 * HOUR + 4 * MINUTE)))"
  using live_window_rule [of "8 * HOUR" "16 * HOUR" "12 * HOUR"]
    live_window_rule [of "8 * HOUR" "16 * HOUR" "16 * HOUR + 4 * MINUTE"]
    live_window_rule [of "8 * HOUR" "16 * HOUR" "16 * HOUR + 6 * MINUTE"]
  by (simp add: spec_resolveEffectiveEnd_def)

theorem live_window_rule_counterexample:
  "snd (resolve_end_times (8 * HOUR) (16 * HOUR) (Some (12 * HOUR))) \<noteq>
     fst (spec_resolveEffectiveEnd (8 * HOUR) (16 * HOUR) (12 * HOUR)) \<and>
   fst (hourly_live_end (16 * HOUR) (15 * HOUR)) \<noteq> (15 * HOUR - 16 * HOUR \<le> 5 * MINUTE)"
  by (simp add: resolve_end_times_now spec_resolveEffectiveEnd_def hourly_live_end_def
        total_seconds_def)

section \<open>The multi-unit report\<close>

lemma summarize_unit_fields:
  "unit_total_qty (summarize_unit pd) =
     sum_list (map success_qty pd) + sum_list (map fail_qty pd)"
  "unit_total_success (summarize_unit pd) = sum_list (map success_qty pd)"
  "unit_quality (summarize_unit pd) =
     (if sum_list (map success_qty pd) + sum_list (map fail_qty pd) > 0
      then of_int (sum_list (map success_qty pd)) /
           of_int (sum_list (map success_qty pd) + sum_list (map fail_qty pd))
      else 0)"
  by (simp_all add: summarize_unit_def Let_def)

lemma summarize_unit_weight:
  "(if unit_total_qty (summarize_unit pd) > 0
    then unit_quality (summarize_unit pd) * of_int (unit_total_qty (summarize_unit pd))
    else 0) =
   unit_quality (summarize_unit pd) * of_int (unit_total_qty (summarize_unit pd))"
  by (simp add: summarize_unit_fields)

lemma accumulate_unit_fields:
  "total_production_all (accumulate_unit n u st) = total_production_all st + unit_total_qty u"
  "weighted_quality_sum (accumulate_unit n u st) =
     weighted_quality_sum st +
       (if unit_total_qty u > 0 then unit_quality u * of_int (unit_total_qty u) else 0)"
  "unit_data (accumulate_unit n u st) = (unit_data st)(n \<mapsto> u)"
  by (simp_all add: accumulate_unit_def Let_def)

lemma entered_units_Nil: "entered_units db s e now m [] = []"
  by (simp add: entered_units_def List.map_filter_simps)

lemma entered_units_Cons:
  "entered_units db s e now m (u # us) =
     (case get_production_data db u s e (Some now) m of
        Inl err \<Rightarrow> entered_units db s e now m us
      | Inr pd \<Rightarrow> summarize_unit pd # entered_units db s e now m us)"
  by (simp add: entered_units_def List.map_filter_simps split: sum.splits)

lemma entered_units_summarized:
  "u \<in> set (entered_units db s e now m us) \<Longrightarrow> \<exists>pd. u = summarize_unit pd"
  by (induction us) (auto simp: entered_units_Nil entered_units_Cons split: sum.splits)

lemma report_loop_skip:
  "get_production_data db u s e (Some now) m = Inl err \<Longrightarrow>
     report_loop db s e now m (u # us) st = report_loop db s e now m us st"
  by (cases err) simp_all

lemma report_loop_take:
  "get_production_data db u s e (Some now) m = Inr pd \<Longrightarrow>
     report_loop db s e now m (u # us) st =
       report_loop db s e now m us (accumulate_unit u (summarize_unit pd) st)"
  by simp

lemma report_loop_sums:
  "total_production_all (report_loop db s e now m us st) =
     total_production_all st + sum_list (map unit_total_qty (entered_units db s e now m us)) \<and>
   weighted_quality_sum (report_loop db s e now m us st) =
     weighted_quality_sum st +
       sum_list (map (\<lambda>u. unit_quality u * of_int (unit_total_qty u))
                   (entered_units db s e now m us))"
proof (induction us arbitrary: st)
  case Nil
  show ?case by (simp add: entered_units_Nil)
next
  case (Cons u us)
  show ?case
  proof (cases "get_production_data db u s e (Some now) m")
    case (Inl err)
    then show ?thesis
      using Cons.IH [of st] by (simp only: report_loop_skip entered_units_Cons sum.case)
  next
    case (Inr pd)
    then show ?thesis
      using Cons.IH [of "accumulate_unit u (summarize_unit pd) st"]
      by (simp only: report_loop_take entered_units_Cons sum.case)
         (simp add: accumulate_unit_fields summarize_unit_weight)
  qed
qed

lemma report_loop_filter:
  "report_loop db s e now m us st =
     report_loop db s e now m (filter (query_ok db s e now m) us) st"
proof (induction us arbitrary: st)
  case Nil
  show ?case by simp
next
  case (Cons u us)
  show ?case
  proof (cases "get_production_data db u s e (Some now) m")
    case (Inl err)
    then have "\<not> query_ok db s e now m u" by (simp add: query_ok_def)
    then show ?thesis using Inl Cons.IH [of st] by (simp only: report_loop_skip filter.simps if_False)
  next
    case (Inr pd)
    then have "query_ok db s e now m u" by (simp add: query_ok_def)
    then show ?thesis
      using Inr Cons.IH [of "accumulate_unit u (summarize_unit pd) st"]
      by (simp only: report_loop_take filter.simps if_True)
  qed
qed

lemma report_loop_dom:
  "dom (unit_data (report_loop db s e now m us st)) =
     dom (unit_data st) \<union> {u \<in> set us. query_ok db s e now m u}"
proof (induction us arbitrary: st)
  case Nil
  show ?case by simp
next
  case (Cons u us)
  show ?case
  proof (cases "get_production_data db u s e (Some now) m")
    case (Inl err)
    then have "\<not> query_ok db s e now m u" by (simp add: query_ok_def)
    then show ?thesis
      using Cons.IH [of st] by (simp only: report_loop_skip [OF Inl]) auto
  next
    case (Inr pd)
    then have qok: "query_ok db s e now m u" by (simp add: query_ok_def)
    have "dom (unit_data (report_loop db s e now m us
              (accumulate_unit u (summarize_unit pd) st))) =
          insert u (dom (unit_data st)) \<union> {u \<in> set us. query_ok db s e now m u}"
      unfolding Cons.IH [of "accumulate_unit u (summarize_unit pd) st"]
      by (simp add: accumulate_unit_fields)
    with qok show ?thesis
      unfolding report_loop_take [OF Inr] by auto
  qed
qed

lemma get_production_data_two_unit_db:
  "get_production_data two_unit_db ''A'' s e ct m =
     Inr [\<lparr> model = ''M1'', success_qty = 10, fail_qty = 0, target = None, total_qty = 10,
            quality = 1, performance = None, oee = None, theoretical_qty = 0 \<rparr>]"
  "get_production_data two_unit_db ''B'' s e ct m =
     Inr [\<lparr> model = ''M1'', success_qty = 5, fail_qty = 5, target = None, total_qty = 5,
            quality = 1 / 2, performance = None, oee = None, theoretical_qty = 0 \<rparr>]"
  by (simp_all add: get_production_data_def two_unit_db_def compute_metrics_eq
        positive_target_def make_model_data_def without_target_update_def
        split: prod.splits)

lemma two_unit_report:
  "\<exists>r. get_report_data two_unit_db [''A'', ''B''] s e now m = Inr r \<and>
       map_option unit_quality (units r ''A'') = Some 1 \<and>
       map_option unit_total_qty (units r ''A'') = Some 10 \<and>
       map_option unit_quality (units r ''B'') = Some (1 / 2) \<and>
       map_option unit_total_qty (units r ''B'') = Some 10 \<and>
       weighted_quality (summary r) = 3 / 4"
  by (simp add: get_report_data_def get_production_data_two_unit_db finish_report_def
        accumulate_unit_def summarize_unit_def initial_report_state_def performance_sum_def
        List.map_filter_simps Let_def)

text \<open>
  C5: the weighted quality of the multi-unit report is
  \<open>\<Sum>(unit.quality * unit.totalQty) / \<Sum>(unit.totalQty)\<close> over the units that enter
  the report, and 0 when the denominator is 0 (unit totals are sums of counts, so not
  negative). In particular, a unit with quality 1.0 and total 10 and a unit with quality
  0.5 and total 10 give the overall weighted quality 0.75.
\<close>

theorem report_weighted_quality:
  "(unit_list \<noteq> [] \<longrightarrow>
    (\<forall>u \<in> set (entered_units db s e now m unit_list). 0 \<le> unit_total_qty u) \<longrightarrow>
    (\<exists>r. get_report_data db unit_list s e now m = Inr r \<and>
         weighted_quality (summary r) =
           spec_weightedQuality (entered_units db s e now m unit_list))) \<and>
   (\<exists>r. get_report_data two_unit_db [''A'', ''B''] (8 * HOUR) (16 * HOUR) (20 * HOUR) ''mode1''
          = Inr r \<and>
       map_option unit_quality (units r ''A'') = Some 1 \<and>
       map_option unit_total_qty (units r ''A'') = Some 10 \<and>
       map_option unit_quality (units r ''B'') = Some (1 / 2) \<and>
       map_option unit_total_qty (units r ''B'') = Some 10 \<and>
       weighted_quality (summary r) = 3 / 4)"
proof (intro conjI impI)
  assume ne: "unit_list \<noteq> []"
    and nonneg: "\<forall>u \<in> set (entered_units db s e now m unit_list). 0 \<le> unit_total_qty u"
  let ?us = "entered_units db s e now m unit_list"
  let ?st = "report_loop db s e now m unit_list initial_report_state"
  have tot: "total_production_all ?st = sum_list (map unit_total_qty ?us)"
    and wq: "weighted_quality_sum ?st =
               sum_list (map (\<lambda>u. unit_quality u * of_int (unit_total_qty u)) ?us)"
    using report_loop_sums [of db s e now m unit_list initial_report_state]
    by (simp_all add: initial_report_state_def)
  have "0 \<le> sum_list (map unit_total_qty ?us)"
    using nonneg by (intro sum_list_nonneg) auto
  then have "weighted_quality (summary (finish_report ?st)) = spec_weightedQuality ?us"
    by (auto simp add: finish_report_def Let_def spec_weightedQuality_def tot wq)
  with ne show "\<exists>r. get_report_data db unit_list s e now m = Inr r \<and>
         weighted_quality (summary r) = spec_weightedQuality ?us"
    by (simp add: get_report_data_def)
next
  show "\<exists>r. get_report_data two_unit_db [''A'', ''B''] (8 * HOUR) (16 * HOUR) (20 * HOUR)
            ''mode1'' = Inr r \<and>
       map_option unit_quality (units r ''A'') = Some 1 \<and>
       map_option unit_total_qty (units r ''A'') = Some 10 \<and>
       map_option unit_quality (units r ''B'') = Some (1 / 2) \<and>
       map_option unit_total_qty (units r ''B'') = Some 10 \<and>
       weighted_quality (summary r) = 3 / 4"
    by (rule two_unit_report)
qed

lemma entered_units_two_unit_db:
  "entered_units two_unit_db s e now m [''A'', ''B''] =
     [summarize_unit [\<lparr> model = ''M1'', success_qty = 10, fail_qty = 0, target = None,
          total_qty = 10, quality = 1, performance = None, oee = None,
          theoretical_qty = 0 \<rparr>],
      summarize_unit [\<lparr> model = ''M1'', success_qty = 5, fail_qty = 5, target = None,
          total_qty = 5, quality = 1 / 2, performance = None, oee = None,
          theoretical_qty = 0 \<rparr>]]"
  by (simp add: entered_units_Cons entered_units_Nil get_production_data_two_unit_db)

theorem report_weighted_quality_witness:
  "[''A'', ''B''] \<noteq> ([] :: string list) \<and>
   map unit_total_qty (entered_units two_unit_db (8 * HOUR) (16 * HOUR) (20 * HOUR) ''mode1''
        [''A'', ''B'']) = [10, 10] \<and>
   map unit_quality (entered_units two_unit_db (8 * HOUR) (16 * HOUR) (20 * HOUR) ''mode1''
        [''A'', ''B'']) = [1, 1 / 2] \<and>
   spec_weightedQuality (entered_units two_unit_db (8 * HOUR) (16 * HOUR) (20 * HOUR) ''mode1''
        [''A'', ''B'']) = 3 / 4 \<and>
   (\<exists>r. get_report_data two_unit_db [''A'', ''B''] (8 * HOUR) (16 * HOUR) (20 * HOUR) ''mode1''
          = Inr r \<and>
        weighted_quality (summary r) = 3 / 4)"
proof -
  let ?us = "entered_units two_unit_db (8 * HOUR) (16 * HOUR) (20 * HOUR) ''mode1''
        [''A'', ''B'']"
  have ne: "[''A'', ''B''] \<noteq> ([] :: string list)" by simp
  have tot: "map unit_total_qty ?us = [10, 10]"
    unfolding entered_units_two_unit_db by (simp add: summarize_unit_fields)
  have qual: "map unit_quality ?us = [1, 1 / 2]"
    unfolding entered_units_two_unit_db by (simp add: summarize_unit_fields)
  have "\<forall>t \<in> set (map unit_total_qty ?us). 0 \<le> t" unfolding tot by simp
  then have nonneg: "\<forall>u \<in> set ?us. 0 \<le> unit_total_qty u" by simp
  have val: "spec_weightedQuality ?us = 3 / 4"
    unfolding entered_units_two_unit_db
    by (simp add: spec_weightedQuality_def summarize_unit_fields)
  from report_weighted_quality [of "[''A'', ''B'']" two_unit_db "8 * HOUR" "16 * HOUR"
      "20 * HOUR" "''mode1''"] ne nonneg
  have "\<exists>r. get_report_data two_unit_db [''A'', ''B''] (8 * HOUR) (16 * HOUR) (20 * HOUR)
          ''mode1'' = Inr r \<and> weighted_quality (summary r) = spec_weightedQuality ?us"
    by blast
  then have "\<exists>r. get_report_data two_unit_db [''A'', ''B''] (8 * HOUR) (16 * HOUR) (20 * HOUR)
          ''mode1'' = Inr r \<and> weighted_quality (summary r) = 3 / 4"
    unfolding val .
  with ne tot qual val show ?thesis by blast
qed

section \<open>Query timeouts and failures\<close>

text \<open>
  C9: when the query of a unit times out or fails, the multi-unit report skips that unit
  and goes on: it still returns a report, the one built from the remaining units alone,
  and its unit map holds exactly the units whose query succeeded. The single-unit
  historical endpoint returns an error of its own instead of a result: status 504 for a
  timeout, status 500 with the database's message for a failure.
\<close>

theorem query_failure_handling:
  "(unit_list \<noteq> [] \<longrightarrow>
     (\<exists>r. get_report_data db unit_list s e now m = Inr r \<and>
          r = finish_report (report_loop db s e now m
                (filter (query_ok db s e now m) unit_list) initial_report_state) \<and>
          dom (units r) = {u \<in> set unit_list. query_ok db s e now m u})) \<and>
   (get_production_data db u s e (Some now) m = Inl TimeoutError \<longrightarrow>
      get_historical_data db u s e now m =
        Inl (HTTPException 504 ''Database query timeout - try a smaller time range'')) \<and>
   (get_production_data db u s e (Some now) m = Inl (DbError msg) \<longrightarrow>
      get_historical_data db u s e now m =
        Inl (HTTPException 500 (''Database error: '' @ msg)))"
proof (intro conjI impI)
  assume ne: "unit_list \<noteq> []"
  let ?st = "report_loop db s e now m unit_list initial_report_state"
  have "dom (units (finish_report ?st)) = {u \<in> set unit_list. query_ok db s e now m u}"
    by (simp add: finish_report_def Let_def report_loop_dom initial_report_state_def)
  moreover have "finish_report ?st = finish_report (report_loop db s e now m
                (filter (query_ok db s e now m) unit_list) initial_report_state)"
    using report_loop_filter [of db s e now m unit_list initial_report_state] by simp
  moreover have "get_report_data db unit_list s e now m = Inr (finish_report ?st)"
    using ne by (simp add: get_report_data_def)
  ultimately show "\<exists>r. get_report_data db unit_list s e now m = Inr r \<and>
          r = finish_report (report_loop db s e now m
                (filter (query_ok db s e now m) unit_list) initial_report_state) \<and>
          dom (units r) = {u \<in> set unit_list. query_ok db s e now m u}"
    by simp
next
  assume "get_production_data db u s e (Some now) m = Inl TimeoutError"
  then show "get_historical_data db u s e now m =
        Inl (HTTPException 504 ''Database query timeout - try a smaller time range'')"
    by (simp add: get_historical_data_def)
next
  assume "get_production_data db u s e (Some now) m = Inl (DbError msg)"
  then show "get_historical_data db u s e now m =
        Inl (HTTPException 500 (''Database error: '' @ msg))"
    by (simp add: get_historical_data_def)
qed

lemma get_production_data_flaky_db:
  "get_production_data flaky_db ''B'' s e ct m = Inl TimeoutError"
  "get_production_data flaky_db ''C'' s e ct m = Inl (DbError ''connection lost'')"
  "\<not> isl (get_production_data flaky_db ''A'' s e ct m)"
  by (simp_all add: get_production_data_def flaky_db_def split: prod.splits)

theorem query_failure_handling_witness:
  "[''A'', ''B'', ''C''] \<noteq> ([] :: string list) \<and>
   (\<exists>r. get_report_data flaky_db [''A'', ''B'', ''C''] (8 * HOUR) (16 * HOUR) (20 * HOUR)
           ''mode1'' = Inr r \<and>
        r = finish_report (report_loop flaky_db (8 * HOUR) (16 * HOUR) (20 * HOUR) ''mode1''
              [''A''] initial_report_state) \<and>
        dom (units r) = {''A''}) \<and>
   get_production_data flaky_db ''B'' (8 * HOUR) (16 * HOUR) (Some (20 * HOUR)) ''mode1''
     = Inl TimeoutError \<and>
   get_historical_data flaky_db ''B'' (8 * HOUR) (16 * HOUR) (20 * HOUR) ''mode1'' =
     Inl (HTTPException 504 ''Database query timeout - try a smaller time range'') \<and>
   get_production_data flaky_db ''C'' (8 * HOUR) (16 * HOUR) (Some (20 * HOUR)) ''mode1''
     = Inl (DbError ''connection lost'') \<and>
   get_historical_data flaky_db ''C'' (8 * HOUR) (16 * HOUR) (20 * HOUR) ''mode1'' =
     Inl (HTTPException 500 ''Database error: connection lost'')"
proof -
  have ok: "filter (query_ok flaky_db (8 * HOUR) (16 * HOUR) (20 * HOUR) ''mode1'')
              [''A'', ''B'', ''C''] = [''A'']"
    by (simp add: query_ok_def get_production_data_flaky_db)
  have oks: "{u \<in> set [''A'', ''B'', ''C''].
               query_ok flaky_db (8 * HOUR) (16 * HOUR) (20 * HOUR) ''mode1'' u} = {''A''}"
    by (auto simp add: query_ok_def get_production_data_flaky_db)
  note q = query_failure_handling [of "[''A'', ''B'', ''C'']" flaky_db "8 * HOUR" "16 * HOUR"
      "20 * HOUR" "''mode1''"]
  have b: "get_production_data flaky_db ''B'' (8 * HOUR) (16 * HOUR) (Some (20 * HOUR))
      ''mode1'' = Inl TimeoutError"
    by (rule get_production_data_flaky_db)
  have c: "get_production_data flaky_db ''C'' (8 * HOUR) (16 * HOUR) (Some (20 * HOUR))
      ''mode1'' = Inl (DbError ''connection lost'')"
    by (rule get_production_data_flaky_db)
  from q [of "''B''" "''x''"] b
  have hb: "get_historical_data flaky_db ''B'' (8 * HOUR) (16 * HOUR) (20 * HOUR) ''mode1'' =
     Inl (HTTPException 504 ''Database query timeout - try a smaller time range'')"
    by blast
  from q [of "''C''" "''connection lost''"] c
  have hc: "get_historical_data flaky_db ''C'' (8 * HOUR) (16 * HOUR) (20 * HOUR) ''mode1'' =
     Inl (HTTPException 500 (''Database error: '' @ ''connection lost''))"
    by blast
  from q [of "''B''" "''x''"]
  have r: "\<exists>r. get_report_data flaky_db [''A'', ''B'', ''C''] (8 * HOUR) (16 * HOUR) (20 * HOUR)
           ''mode1'' = Inr r \<and>
        r = finish_report (report_loop flaky_db (8 * HOUR) (16 * HOUR) (20 * HOUR) ''mode1''
              [''A''] initial_report_state) \<and>
        dom (units r) = {''A''}"
    unfolding ok oks by blast
  from hc have hc': "get_historical_data flaky_db ''C'' (8 * HOUR) (16 * HOUR) (20 * HOUR)
      ''mode1'' = Inl (HTTPException 500 ''Database error: connection lost'')"
    by simp
  show ?thesis
    by (intro conjI) (simp, rule r, rule b, rule hb, rule c, rule hc')
qed

section \<open>Hourly buckets\<close>

lemma chain_extend:
  assumes "hour_start b = cur" and "hour_end b = he" and "cur < he" and "he \<le> aend"
    and "he - cur \<le> HOUR"
    and "he < aend \<longrightarrow> he = cur + HOUR \<and> nx = he"
    and "he = aend \<longrightarrow> aend \<le> nx"
    and "if nx < aend then chain nx bs aend else bs = []"
    and "hour_lengths bs"
  shows "chain cur (b # bs) aend \<and> hour_lengths (b # bs)"
proof (cases "he < aend")
  case True
  with assms(6) have he: "he = cur + HOUR" and nx: "nx = he" by simp_all
  from assms(8) True nx have ch: "chain he bs aend" by simp
  with True have "bs \<noteq> []" by auto
  then obtain y ys where bs: "bs = y # ys" by (cases bs) auto
  from ch assms(1,2,3) have "chain cur (b # bs) aend" by simp
  moreover from assms(9) he assms(1,2) have "hour_lengths (b # bs)" unfolding bs by simp
  ultimately show ?thesis by blast
next
  case False
  with assms(4) have he: "he = aend" by simp
  with assms(7) have "\<not> nx < aend" by simp
  with assms(8) have bs: "bs = []" by simp
  show ?thesis unfolding bs using assms(1,2,3,5) he by simp
qed

lemma get_production_data_succeeds:
  "all_queries_succeed db \<Longrightarrow> \<exists>pd. get_production_data db u s e ct m = Inr pd"
  unfolding all_queries_succeed_def get_production_data_def
  by (auto split: prod.splits sum.splits simp: isl_def)

lemma hour_metrics_bounds:
  "hour_start (hour_metrics pd cur he m) = cur" "hour_end (hour_metrics pd cur he m) = he"
  by (simp_all add: hour_metrics_def Let_def split: prod.splits)

lemma historical_hour_step_append:
  assumes "all_queries_succeed db"
  shows "\<exists>b. hourly_data (historical_hour_step db u m now cur he st) = hourly_data st @ [b] \<and>
             hour_start b = cur \<and> hour_end b = he"
proof -
  from get_production_data_succeeds [OF assms]
  obtain pd where "get_production_data db u cur he (Some now) m = Inr pd" by blast
  then show ?thesis
    by (simp add: historical_hour_step_def Let_def hour_metrics_bounds)
qed

lemma ws_hour_step_append:
  assumes "all_queries_succeed db"
  shows "\<exists>b. ws_hour_step db u m now cur he bs = bs @ [b] \<and>
             hour_start b = cur \<and> hour_end b = he"
proof -
  from get_production_data_succeeds [OF assms]
  obtain pd where "get_production_data db u cur he (Some now) m = Inr pd" by blast
  then show ?thesis
    by (simp add: ws_hour_step_def hour_metrics_bounds)
qed

lemma historical_hour_loop_chain:
  "all_queries_succeed db \<Longrightarrow>
   \<exists>bs. hourly_data (historical_hour_loop db u m now end_dt cur st) = hourly_data st @ bs \<and>
        (if cur < end_dt then chain cur bs end_dt else bs = []) \<and> hour_lengths bs"
proof (induction db u m now end_dt cur st rule: historical_hour_loop.induct)
  case (1 db u m now end_dt cur st)
  note unroll = historical_hour_loop.simps [of db u m now end_dt cur st]
  show ?case
  proof (cases "cur < end_dt")
    case False
    with unroll show ?thesis by simp
  next
    case True
    let ?he = "min (cur + HOUR) end_dt"
    let ?st = "historical_hour_step db u m now cur ?he st"
    from historical_hour_step_append [OF "1.prems", of u m now cur ?he st]
    obtain b where b: "hourly_data ?st = hourly_data st @ [b]"
      "hour_start b = cur" "hour_end b = ?he" by blast
    from "1.IH" [OF True "1.prems"] obtain bs where
      bs: "hourly_data (historical_hour_loop db u m now end_dt ?he ?st) = hourly_data ?st @ bs"
        "if ?he < end_dt then chain ?he bs end_dt else bs = []" "hour_lengths bs"
      by blast
    have "chain cur (b # bs) end_dt \<and> hour_lengths (b # bs)"
      by (rule chain_extend [where he = ?he and nx = ?he])
         (use True b bs in \<open>simp_all add: min_def\<close>)
    moreover have "hourly_data (historical_hour_loop db u m now end_dt cur st) =
                   hourly_data st @ (b # bs)"
      using unroll True bs(1) b(1) by simp
    ultimately show ?thesis using True by auto
  qed
qed

lemma ws_cursor:
  assumes "live \<longrightarrow> aend = now" and "cur < aend"
  shows "cur < ws_hour_end live now aend cur \<and> ws_hour_end live now aend cur \<le> aend \<and>
         ws_hour_end live now aend cur - cur \<le> HOUR \<and>
         (ws_hour_end live now aend cur < aend \<longrightarrow>
            ws_hour_end live now aend cur = cur + HOUR \<and>
            ws_next_hour live now cur (ws_hour_end live now aend cur) =
              ws_hour_end live now aend cur) \<and>
         (ws_hour_end live now aend cur = aend \<longrightarrow>
            aend \<le> ws_next_hour live now cur (ws_hour_end live now aend cur))"
  using assms by (auto simp: ws_hour_end_def ws_next_hour_def Let_def min_def)

lemma ws_hour_loop_chain:
  "all_queries_succeed db \<Longrightarrow> live \<longrightarrow> aend = now \<Longrightarrow>
   \<exists>bs. ws_hour_loop db u m now live aend cur acc = acc @ bs \<and>
        (if cur < aend then chain cur bs aend else bs = []) \<and> hour_lengths bs"
proof (induction db u m now live aend cur acc rule: ws_hour_loop.induct)
  case (1 db u m now live aend cur acc)
  note unroll = ws_hour_loop.simps [of db u m now live aend cur acc]
  show ?case
  proof (cases "cur < aend")
    case False
    with unroll show ?thesis by simp
  next
    case True
    let ?he = "ws_hour_end live now aend cur"
    let ?nx = "ws_next_hour live now cur ?he"
    let ?acc = "ws_hour_step db u m now cur ?he acc"
    note cursor = ws_cursor [OF "1.prems"(2) True]
    from ws_hour_step_append [OF "1.prems"(1), of u m now cur ?he acc]
    obtain b where b: "?acc = acc @ [b]" "hour_start b = cur" "hour_end b = ?he" by blast
    from "1.IH" [OF True "1.prems"] obtain bs where
      bs: "ws_hour_loop db u m now live aend ?nx ?acc = ?acc @ bs"
        "if ?nx < aend then chain ?nx bs aend else bs = []" "hour_lengths bs"
      by blast
    have "chain cur (b # bs) aend \<and> hour_lengths (b # bs)"
      by (rule chain_extend [where he = ?he and nx = ?nx])
         (use cursor b bs in \<open>simp_all\<close>)
    moreover have "ws_hour_loop db u m now live aend cur acc = acc @ (b # bs)"
      using unroll True bs(1) b(1) by simp
    ultimately show ?thesis using True by auto
  qed
qed

lemma hourly_live_end_live:
  "fst (hourly_live_end end_time now) \<longrightarrow> snd (hourly_live_end end_time now) = now"
  by (simp add: hourly_live_end_def Let_def)

lemma historical_buckets_chain:
  assumes "all_queries_succeed db" and "floor_hour start < end_dt"
  shows "chain (floor_hour start)
           (hr_hourly_data (get_historical_hourly_data db u start end_dt now m)) end_dt \<and>
         hour_lengths (hr_hourly_data (get_historical_hourly_data db u start end_dt now m))"
proof -
  let ?init = "\<lparr> hourly_data = [], hs_total_success = 0, hs_total_fail = 0,
                  hs_total_qty = 0 \<rparr>"
  from historical_hour_loop_chain [OF assms(1), of u m now end_dt "floor_hour start" ?init]
    assms(2)
  obtain bs where
    "hourly_data (historical_hour_loop db u m now end_dt (floor_hour start) ?init) = bs"
    "chain (floor_hour start) bs end_dt" "hour_lengths bs"
    by auto
  then show ?thesis by (simp add: get_historical_hourly_data_def Let_def)
qed

lemma ws_buckets_chain:
  assumes "all_queries_succeed db" and "floor_hour start < snd (hourly_live_end end_time now)"
  shows "chain (floor_hour start) (ws_hourly_breakdown db u start end_time now m)
           (snd (hourly_live_end end_time now)) \<and>
         hour_lengths (ws_hourly_breakdown db u start end_time now m)"
proof -
  let ?live = "fst (hourly_live_end end_time now)"
  let ?aend = "snd (hourly_live_end end_time now)"
  from ws_hour_loop_chain [where live = ?live and aend = ?aend and now = now and u = u
      and m = m and cur = "floor_hour start" and acc = "[]",
      OF assms(1) hourly_live_end_live] assms(2)
  obtain bs where "ws_hour_loop db u m now ?live ?aend (floor_hour start) [] = bs"
    "chain (floor_hour start) bs ?aend" "hour_lengths bs"
    by auto
  then show ?thesis by (simp add: ws_hourly_breakdown_def Let_def case_prod_beta)
qed

lemma two_and_a_half_hours:
  "bounds (hr_hourly_data (get_historical_hourly_data empty_db ''U1'' (10 * HOUR)
       (12 * HOUR + 30 * MINUTE) (20 * HOUR) ''mode1'')) =
     [(10 * HOUR, 11 * HOUR), (11 * HOUR, 12 * HOUR), (12 * HOUR, 12 * HOUR + 30 * MINUTE)]"
  "bounds (ws_hourly_breakdown empty_db ''U1'' (10 * HOUR)
       (12 * HOUR + 30 * MINUTE) (20 * HOUR) ''mode1'') =
     [(10 * HOUR, 11 * HOUR), (11 * HOUR, 12 * HOUR), (12 * HOUR, 12 * HOUR + 30 * MINUTE)]"
  by code_simp+

text \<open>
  C6 (as the code has it): when every per-bucket query succeeds, the buckets of the
  hourly breakdown are contiguous, with no gap and no overlap, from \<open>window.start\<close>
  floored to the hour up to the end of the breakdown (\<open>window.end\<close> for the historical
  endpoint; for the streaming channel \<open>now\<close> when its breakdown is live, else
  \<open>window.end\<close>), each bucket one hour long except a possibly shorter last one. So they
  partition the window itself when \<open>window.start\<close> is on the hour. In particular a
  2.5-hour window starting at 10:00 yields exactly the 3 buckets
  \<open>[10:00,11:00)\<close>, \<open>[11:00,12:00)\<close>, \<open>[12:00,12:30)\<close>.
\<close>

theorem hourly_buckets_partition:
  "(all_queries_succeed db \<longrightarrow> floor_hour start < end_dt \<longrightarrow>
      chain (floor_hour start)
        (hr_hourly_data (get_historical_hourly_data db u start end_dt now m)) end_dt \<and>
      hour_lengths (hr_hourly_data (get_historical_hourly_data db u start end_dt now m))) \<and>
   (all_queries_succeed db \<longrightarrow> floor_hour start < snd (hourly_live_end end_dt now) \<longrightarrow>
      chain (floor_hour start) (ws_hourly_breakdown db u start end_dt now m)
        (snd (hourly_live_end end_dt now)) \<and>
      hour_lengths (ws_hourly_breakdown db u start end_dt now m)) \<and>
   (start mod HOUR = 0 \<longrightarrow> floor_hour start = start) \<and>
   bounds (hr_hourly_data (get_historical_hourly_data empty_db ''U1'' (10 * HOUR)
       (12 * HOUR + 30 * MINUTE) (20 * HOUR) ''mode1'')) =
     [(10 * HOUR, 11 * HOUR), (11 * HOUR, 12 * HOUR), (12 * HOUR, 12 * HOUR + 30 * MINUTE)] \<and>
   bounds (ws_hourly_breakdown empty_db ''U1'' (10 * HOUR)
       (12 * HOUR + 30 * MINUTE) (20 * HOUR) ''mode1'') =
     [(10 * HOUR, 11 * HOUR), (11 * HOUR, 12 * HOUR), (12 * HOUR, 12 * HOUR + 30 * MINUTE)]"
  using historical_buckets_chain [of db start end_dt u now m]
    ws_buckets_chain [of db start end_dt now u m] two_and_a_half_hours
  by (simp add: floor_hour_def)

theorem hourly_buckets_partition_witness:
  "all_queries_succeed empty_db \<and>
   floor_hour (10 * HOUR) < 12 * HOUR + 30 * MINUTE \<and>
   floor_hour (10 * HOUR) < snd (hourly_live_end (12 * HOUR + 30 * MINUTE) (20 * HOUR)) \<and>
   (10 * HOUR) mod HOUR = 0 \<and>
   chain (10 * HOUR)
     (hr_hourly_data (get_historical_hourly_data empty_db ''U1'' (10 * HOUR)
        (12 * HOUR + 30 * MINUTE) (20 * HOUR) ''mode1'')) (12 * HOUR + 30 * MINUTE) \<and>
   hour_lengths (hr_hourly_data (get_historical_hourly_data empty_db ''U1'' (10 * HOUR)
        (12 * HOUR + 30 * MINUTE) (20 * HOUR) ''mode1'')) \<and>
   chain (10 * HOUR)
     (ws_hourly_breakdown empty_db ''U1'' (10 * HOUR) (12 * HOUR + 30 * MINUTE) (20 * HOUR)
        ''mode1'') (12 * HOUR + 30 * MINUTE) \<and>
   hour_lengths (ws_hourly_breakdown empty_db ''U1'' (10 * HOUR) (12 * HOUR + 30 * MINUTE)
        (20 * HOUR) ''mode1'')"
proof -
  have ok: "all_queries_succeed empty_db"
    by (simp add: all_queries_succeed_def empty_db_def)
  have fl: "floor_hour (10 * HOUR) = 10 * HOUR" by (simp add: floor_hour_def)
  have le: "snd (hourly_live_end (12 * HOUR + 30 * MINUTE) (20 * HOUR)) = 12 * HOUR + 30 * MINUTE"
    by (simp add: hourly_live_end_def total_seconds_def)
  from hourly_buckets_partition [of empty_db "10 * HOUR" "12 * HOUR + 30 * MINUTE" "''U1''"
      "20 * HOUR" "''mode1''"] ok
  show ?thesis unfolding fl le by simp
qed

theorem hourly_buckets_partition_counterexample:
  "\<not> chain (10 * HOUR + 30 * MINUTE)
       (hr_hourly_data (get_historical_hourly_data empty_db ''U1'' (10 * HOUR + 30 * MINUTE)
          (12 * HOUR + 30 * MINUTE) (20 * HOUR) ''mode1'')) (12 * HOUR + 30 * MINUTE) \<and>
   \<not> chain (10 * HOUR)
       (hr_hourly_data (get_historical_hourly_data gap_db ''U1'' (10 * HOUR)
          (12 * HOUR + 30 * MINUTE) (20 * HOUR) ''mode1'')) (12 * HOUR + 30 * MINUTE)"
  by code_simp

section \<open>Heartbeats\<close>

text \<open>
  C10: in a streaming session, an inbound heartbeat message is answered with an
  acknowledgement and leaves the session's parameters (unit name, window start, window
  end, working mode) as they were for the next iteration; and whenever the wait changes
  the parameters, the message was a parameter message that is not a heartbeat (which
  never changes the unit name).
\<close>

theorem heartbeat_keeps_params:
  "(heartbeat msg \<longrightarrow>
      wait_for_message params (Json msg) timestamp = Inr (params, [HeartbeatAck timestamp])) \<and>
   (wait_for_message params received timestamp = Inr (params', out) \<and> params' \<noteq> params \<longrightarrow>
      (\<exists>msg'. received = Json msg' \<and> \<not> heartbeat msg' \<and> out = [] \<and>
         sp_unit_name params' = sp_unit_name params \<and>
         parse_ws_params msg' =
           Inr (sp_start_time params', sp_end_time params', sp_working_mode params')))"
proof (intro conjI impI)
  assume "heartbeat msg"
  then show "wait_for_message params (Json msg) timestamp =
      Inr (params, [HeartbeatAck timestamp])"
    by (simp add: wait_for_message_def)
next
  assume a: "wait_for_message params received timestamp = Inr (params', out) \<and>
             params' \<noteq> params"
  then show "\<exists>msg'. received = Json msg' \<and> \<not> heartbeat msg' \<and> out = [] \<and>
         sp_unit_name params' = sp_unit_name params \<and>
         parse_ws_params msg' =
           Inr (sp_start_time params', sp_end_time params', sp_working_mode params')"
    by (cases received)
       (auto simp: wait_for_message_def split: if_splits sum.splits prod.splits)
qed

theorem heartbeat_keeps_params_witness:
  "heartbeat \<lparr> heartbeat = True, in_start_time = Parsed (9 * HOUR),
       in_end_time = Parsed (17 * HOUR), in_working_mode = Some ''mode2'' \<rparr> \<and>
   wait_for_message
     \<lparr> sp_unit_name = ''U1'', sp_start_time = 8 * HOUR, sp_end_time = 16 * HOUR,
       sp_working_mode = ''mode1'' \<rparr>
     (Json \<lparr> heartbeat = True, in_start_time = Parsed (9 * HOUR),
             in_end_time = Parsed (17 * HOUR), in_working_mode = Some ''mode2'' \<rparr>) 1234 =
     Inr (\<lparr> sp_unit_name = ''U1'', sp_start_time = 8 * HOUR, sp_end_time = 16 * HOUR,
            sp_working_mode = ''mode1'' \<rparr>, [HeartbeatAck 1234]) \<and>
   wait_for_message
     \<lparr> sp_unit_name = ''U1'', sp_start_time = 8 * HOUR, sp_end_time = 16 * HOUR,
       sp_working_mode = ''mode1'' \<rparr>
     (Json \<lparr> heartbeat = False, in_start_time = Parsed (9 * HOUR),
             in_end_time = Parsed (17 * HOUR), in_working_mode = Some ''mode2'' \<rparr>) 1234 =
     Inr (\<lparr> sp_unit_name = ''U1'', sp_start_time = 9 * HOUR, sp_end_time = 17 * HOUR,
            sp_working_mode = ''mode2'' \<rparr>, []) \<and>
   \<lparr> sp_unit_name = ''U1'', sp_start_time = 9 * HOUR, sp_end_time = 17 * HOUR,
     sp_working_mode = ''mode2'' \<rparr> \<noteq>
   \<lparr> sp_unit_name = ''U1'', sp_start_time = 8 * HOUR, sp_end_time = 16 * HOUR,
     sp_working_mode = ''mode1'' \<rparr> \<and>
   (\<exists>msg'. Json \<lparr> heartbeat = False, in_start_time = Parsed (9 * HOUR),
             in_end_time = Parsed (17 * HOUR), in_working_mode = Some ''mode2'' \<rparr> = Json msg' \<and>
      \<not> heartbeat msg')"
proof -
  let ?p = "\<lparr> sp_unit_name = ''U1'', sp_start_time = 8 * HOUR, sp_end_time = 16 * HOUR,
       sp_working_mode = ''mode1'' \<rparr>"
  let ?p' = "\<lparr> sp_unit_name = ''U1'', sp_start_time = 9 * HOUR, sp_end_time = 17 * HOUR,
            sp_working_mode = ''mode2'' \<rparr>"
  let ?hb = "\<lparr> heartbeat = True, in_start_time = Parsed (9 * HOUR),
       in_end_time = Parsed (17 * HOUR), in_working_mode = Some ''mode2'' \<rparr>"
  let ?pm = "\<lparr> heartbeat = False, in_start_time = Parsed (9 * HOUR),
       in_end_time = Parsed (17 * HOUR), in_working_mode = Some ''mode2'' \<rparr>"
  have h: "heartbeat ?hb" by simp
  have w: "wait_for_message ?p (Json ?pm) 1234 = Inr (?p', [])"
    by (simp add: wait_for_message_def parse_ws_params_def)
  have d: "?p' \<noteq> ?p" by simp
  from heartbeat_keeps_params [of ?hb ?p 1234 "Json ?pm" ?p' "[]"] h w d
  have "wait_for_message ?p (Json ?hb) 1234 = Inr (?p, [HeartbeatAck 1234])"
    and "\<exists>msg'. Json ?pm = Json msg' \<and> \<not> heartbeat msg'"
    by blast+
  with h w d show ?thesis by blast
qed

end
